theory Spec2Isabelle
  imports Main
begin

section \<open>jquery-html5-dnd: a shallow embedding of \<^verbatim>\<open>src/jquery-html5-dnd.js\<close>\<close>

text \<open>
  The plugin is one closure holding six variables, eight event handlers, two jQuery
  plugin functions and a deferred set-up block. The closure variables, the part of the
  DOM the handlers read and write, the browser's timer queue and the log of triggered
  jQuery events are the fields of one record, \<open>world\<close>; every handler is a function from
  the event object and the world to the changed event object and the changed world.
  Listeners that application code registers for the triggered events are not part of the
  plugin: a triggered event is appended to the log, and whatever such a listener does
  (a \<^verbatim>\<open>dnd-data-set\<close>, for instance) is a later input of the machine.
\<close>

subsection \<open>JavaScript values\<close>

text \<open>
  The values the closure variables and the attribute reads can hold: \<^verbatim>\<open>undefined\<close>,
  \<^verbatim>\<open>null\<close>, a string, or an object known by its reference. On these, \<^verbatim>\<open>===\<close> is equality
  of the datatype.
\<close>

datatype jsval = Undefined | Null | Str string | Ref nat

definition truthy :: "jsval \<Rightarrow> bool" where
  "truthy v = (case v of Undefined \<Rightarrow> False | Null \<Rightarrow> False | Str s \<Rightarrow> s \<noteq> [] | Ref r \<Rightarrow> True)"

text \<open>\<^verbatim>\<open>a || b\<close>\<close>

definition js_or :: "jsval \<Rightarrow> jsval \<Rightarrow> jsval" where
  "js_or a b = (if truthy a then a else b)"

text \<open>The string an attribute setter stores for a value.\<close>

definition to_string :: "jsval \<Rightarrow> string" where
  "to_string v = (case v of Undefined \<Rightarrow> ''undefined'' | Null \<Rightarrow> ''null'' | Str s \<Rightarrow> s
     | Ref r \<Rightarrow> ''[object Object]'')"

subsection \<open>Constants of the closure\<close>

definition DEFAULT_DRAG_NAMESPACE :: string where
  "DEFAULT_DRAG_NAMESPACE = ''html5-draggable''"

definition DEFAULT_DROP_NAMESPACE :: string where
  "DEFAULT_DROP_NAMESPACE = ''html5-droppable''"

definition DRAGGABLE_SELECTOR :: string where
  "DRAGGABLE_SELECTOR = ''[data-draggable]''"

definition DRAGGABLE_DRAGGING_CLASS :: string where
  "DRAGGABLE_DRAGGING_CLASS = ''draggable-dragging''"

definition DROPPABLE_SELECTOR :: string where
  "DROPPABLE_SELECTOR = ''[data-droppable]''"

definition DROPPABLE_HOVER_CLASS :: string where
  "DROPPABLE_HOVER_CLASS = ''droppable-hover''"

definition DROPPABLE_EDGE_SELECTOR :: string where
  "DROPPABLE_EDGE_SELECTOR = ''[data-droppable-edge]''"

definition GLOBAL_DRAGGING_ATTR :: string where
  "GLOBAL_DRAGGING_ATTR = ''data-dragging''"

definition SCROLL_INTERVAL :: nat where
  "SCROLL_INTERVAL = 50"

subsection \<open>Events, the DOM and the closure state\<close>

type_synonym elem_id = nat

text \<open>The document node and \<^verbatim>\<open>document.body\<close> are elements like the others.\<close>

definition document :: elem_id where
  "document = 0"

definition document_body :: elem_id where
  "document_body = 1"

text \<open>\<^verbatim>\<open>e.originalEvent.dataTransfer\<close>; \<open>hasSetDragImage\<close> says whether the browser has
  \<^verbatim>\<open>setDragImage\<close> (line 183).\<close>

record data_transfer =
  effectAllowed :: "string option"
  dropEffect :: "string option"
  transferData :: "string \<Rightarrow> string option"
  dragImage :: "(elem_id option \<times> int \<times> int) option"
  hasSetDragImage :: bool

record event =
  target :: elem_id
  currentTarget :: elem_id
  propagationStopped :: bool
  defaultPrevented :: bool
  dataTransfer :: data_transfer

text \<open>An event the plugin triggers with jQuery: its name, the element it is triggered on,
  and the three properties the source passes.\<close>

record dnd_event =
  ev_name :: string
  ev_target :: elem_id
  ev_original :: event
  ev_dragType :: jsval
  ev_dragData :: jsval

text \<open>What \<^verbatim>\<open>$(selector)\<close> holds: the window or elements.\<close>

datatype scroller = Window | Element elem_id

datatype jq = JQ_undefined | JQ_null | JQ "scroller list"

text \<open>The two functions the source hands to \<^verbatim>\<open>setTimeout\<close>.\<close>

datatype callback = SetDraggingState | ClearDraggingState

record world =
  dragData :: jsval
  dragType :: jsval
  triggerDraggableEvents :: bool
  cancelled :: bool
  scrollInterval :: "nat option"
  scrollContainer :: jq
  attributes :: "elem_id \<Rightarrow> string \<Rightarrow> string option"
  classList :: "elem_id \<Rightarrow> string set"
  elementById :: "string \<Rightarrow> elem_id option"
  query :: "string \<Rightarrow> elem_id list"
  scrollTop :: "scroller \<Rightarrow> int"
  timeouts :: "(callback \<times> nat) list"
  intervals :: "(nat \<times> nat \<times> int) list"
  nextTimer :: nat
  triggered :: "dnd_event list"

text \<open>
  \<open>dragData\<close> to \<open>scrollContainer\<close> are the closure's variables (lines 117 to 132), where
  \<open>scrollInterval = None\<close> is \<^verbatim>\<open>undefined\<close>. \<open>attributes\<close>, \<open>classList\<close>, \<open>elementById\<close>,
  \<open>query\<close> (what a jQuery selector resolves to) and \<open>scrollTop\<close> are the document.
  \<open>timeouts\<close> are the pending one-shot timers with their delays, oldest first; the source
  sets every one of them with the delay 1, so the browser runs them in this order.
  \<open>intervals\<close> are the running interval timers, each with its handle, its period and the
  \<^verbatim>\<open>scrollDiff\<close> its callback closed over.
  \<open>triggered\<close> is the log of jQuery events triggered so far, oldest first.
\<close>

subsection \<open>DOM and timer primitives\<close>

definition getAttribute :: "world \<Rightarrow> elem_id \<Rightarrow> string \<Rightarrow> jsval" where
  "getAttribute w el name = (case attributes w el name of None \<Rightarrow> Null | Some s \<Rightarrow> Str s)"

definition setAttribute :: "elem_id \<Rightarrow> string \<Rightarrow> jsval \<Rightarrow> world \<Rightarrow> world" where
  "setAttribute el name v w =
     w\<lparr>attributes := (attributes w)(el := (attributes w el)(name \<mapsto> to_string v))\<rparr>"

definition removeAttribute :: "elem_id \<Rightarrow> string \<Rightarrow> world \<Rightarrow> world" where
  "removeAttribute el name w =
     w\<lparr>attributes := (attributes w)(el := (attributes w el)(name := None))\<rparr>"

definition classList_add :: "elem_id \<Rightarrow> string \<Rightarrow> world \<Rightarrow> world" where
  "classList_add el c w = w\<lparr>classList := (classList w)(el := insert c (classList w el))\<rparr>"

definition classList_remove :: "elem_id \<Rightarrow> string \<Rightarrow> world \<Rightarrow> world" where
  "classList_remove el c w = w\<lparr>classList := (classList w)(el := classList w el - {c})\<rparr>"

definition getElementById :: "world \<Rightarrow> string \<Rightarrow> elem_id option" where
  "getElementById w i = elementById w i"

definition trigger :: "dnd_event \<Rightarrow> world \<Rightarrow> world" where
  "trigger ev w = w\<lparr>triggered := triggered w @ [ev]\<rparr>"

definition stopPropagation :: "event \<Rightarrow> event" where
  "stopPropagation e = e\<lparr>propagationStopped := True\<rparr>"

definition preventDefault :: "event \<Rightarrow> event" where
  "preventDefault e = e\<lparr>defaultPrevented := True\<rparr>"

text \<open>Timer handles come from one counter. The source keeps the handle of its interval
  timer only; the handles of its timeouts are dropped.\<close>

definition setTimeout :: "callback \<Rightarrow> nat \<Rightarrow> world \<Rightarrow> world" where
  "setTimeout cb delay w =
     w\<lparr>timeouts := timeouts w @ [(cb, delay)], nextTimer := Suc (nextTimer w)\<rparr>"

definition setInterval :: "int \<Rightarrow> nat \<Rightarrow> world \<Rightarrow> nat \<times> world" where
  "setInterval scrollDiff delay w =
     (nextTimer w,
      w\<lparr>intervals := intervals w @ [(nextTimer w, delay, scrollDiff)],
        nextTimer := Suc (nextTimer w)\<rparr>)"

definition clearInterval :: "nat option \<Rightarrow> world \<Rightarrow> world" where
  "clearInterval h w =
     (case h of None \<Rightarrow> w
      | Some i \<Rightarrow> w\<lparr>intervals := filter (\<lambda>t. fst t \<noteq> i) (intervals w)\<rparr>)"

subsection \<open>Helpers (lines 138 to 145)\<close>

definition setDraggingState :: "world \<Rightarrow> world" where
  "setDraggingState w = setAttribute document_body GLOBAL_DRAGGING_ATTR (dragType w) w"

definition clearDraggingState :: "world \<Rightarrow> world" where
  "clearDraggingState w = removeAttribute document_body GLOBAL_DRAGGING_ATTR w"

subsection \<open>Event handlers (lines 151 to 315)\<close>

definition onDragStart :: "event \<Rightarrow> world \<Rightarrow> event \<times> world" where
  "onDragStart e w =
    (let tgt = target e;
         type = js_or (getAttribute w tgt ''data-draggable'')
                      (getAttribute w tgt ''data-draggable-type'');
         data = js_or (getAttribute w tgt ''data-draggable-data'') (Str [])
     in if \<not> truthy type then (e, w)
        else
          let w1 = w\<lparr>dragData := data, dragType := type\<rparr>;
              w2 = classList_add tgt DRAGGABLE_DRAGGING_CLASS w1;
              w3 = (if getAttribute w2 tgt ''data-draggable-trigger'' = Str ''true''
                    then trigger \<lparr>ev_name = ''dnd-start'', ev_target = tgt, ev_original = e,
                                  ev_dragType = type, ev_dragData = data\<rparr>
                           (w2\<lparr>triggerDraggableEvents := True\<rparr>)
                    else w2);
              dt1 = (dataTransfer e)\<lparr>effectAllowed := Some ''move''\<rparr>;
              dt2 = dt1\<lparr>transferData := (transferData dt1)(''Text'' \<mapsto> ''true'')\<rparr>;
              dt3 = (if hasSetDragImage dt2
                     then let dragImageId = getAttribute w3 tgt ''data-draggable-image''
                          in if truthy dragImageId
                             then let dragImage = getElementById w3 (to_string dragImageId)
                                  in dt2\<lparr>dragImage := Some (dragImage, 0, 0)\<rparr>
                             else dt2
                     else dt2)
          in (e\<lparr>dataTransfer := dt3\<rparr>, setTimeout SetDraggingState 1 w3))"

definition onDragEnd :: "event \<Rightarrow> world \<Rightarrow> event \<times> world" where
  "onDragEnd e w =
    (let tgt = target e;
         w1 = classList_remove tgt DRAGGABLE_DRAGGING_CLASS w;
         w2 = (if triggerDraggableEvents w1
               then (trigger \<lparr>ev_name = ''dnd-end'', ev_target = tgt, ev_original = e,
                              ev_dragType = dragType w1, ev_dragData = dragData w1\<rparr> w1)
                      \<lparr>triggerDraggableEvents := False\<rparr>
               else w1)
     in (e, setTimeout ClearDraggingState 1 w2))"

definition onDragEnter :: "event \<Rightarrow> world \<Rightarrow> event \<times> world" where
  "onDragEnter e w =
    (let tgt = currentTarget e;
         acceptedType = js_or (getAttribute w tgt ''data-droppable'')
                              (getAttribute w tgt ''data-droppable-type'');
         w1 = w\<lparr>cancelled := (acceptedType \<noteq> dragType w)\<rparr>
     in if cancelled w1 then (e, w1)
        else
          let e1 = e\<lparr>dataTransfer := (dataTransfer e)\<lparr>dropEffect := Some ''move''\<rparr>\<rparr>;
              w2 = classList_add tgt DROPPABLE_HOVER_CLASS w1
          in (stopPropagation e1, w2))"

text \<open>What a handler returns to jQuery: \<^verbatim>\<open>false\<close>, or nothing. What jQuery does with
  the event on \<^verbatim>\<open>false\<close> is jQuery's and no part of the handler.\<close>

datatype retval = ReturnsFalse | ReturnsUndefined

definition onDragOver :: "event \<Rightarrow> world \<Rightarrow> retval \<times> event \<times> world" where
  "onDragOver e w =
    (if \<not> cancelled w then (ReturnsFalse, preventDefault e, w)
     else (ReturnsUndefined, e, w))"

definition onDragLeave :: "event \<Rightarrow> world \<Rightarrow> event \<times> world" where
  "onDragLeave e w = (e, classList_remove (currentTarget e) DROPPABLE_HOVER_CLASS w)"

definition onDragDrop :: "event \<Rightarrow> world \<Rightarrow> event \<times> world" where
  "onDragDrop e w =
    (let e1 = preventDefault (stopPropagation e);
         tgt = currentTarget e1;
         w1 = classList_remove tgt DROPPABLE_HOVER_CLASS w;
         w2 = trigger \<lparr>ev_name = ''dnd-drop'', ev_target = tgt, ev_original = e1,
                       ev_dragType = dragType w1, ev_dragData = dragData w1\<rparr> w1
     in (e1, setTimeout ClearDraggingState 1 w2))"

text \<open>\<^verbatim>\<open>$(selector)\<close> at line 293, for a selector that is a non-empty string: the
  window when line 290 has replaced \<^verbatim>\<open>'window'\<close> by it, else the elements the selector
  matches.\<close>

definition jQuery :: "world \<Rightarrow> string \<Rightarrow> scroller list" where
  "jQuery w selector =
     (if selector = ''window'' then [Window] else map Element (query w selector))"

definition onDroppableEdgeEnter :: "event \<Rightarrow> world \<Rightarrow> event \<times> world" where
  "onDroppableEdgeEnter e w =
    (let edge = currentTarget e;
         selector = getAttribute w edge ''data-droppable-edge-container''
     in if truthy selector then
          let w1 = w\<lparr>scrollContainer := JQ (jQuery w (to_string selector))\<rparr>
          in if jQuery w (to_string selector) \<noteq> [] then
               let position = getAttribute w1 edge ''data-droppable-edge'';
                   scrollDiff = (if position = Str ''top'' then - 40 else 40);
                   w2 = clearInterval (scrollInterval w1) w1;
                   (h, w3) = setInterval scrollDiff SCROLL_INTERVAL w2
               in (e, w3\<lparr>scrollInterval := Some h\<rparr>)
             else (e, w1)
        else (e, w))"

definition onDroppableEdgeLeave :: "event \<Rightarrow> world \<Rightarrow> event \<times> world" where
  "onDroppableEdgeLeave e w = (e, (clearInterval (scrollInterval w) w)\<lparr>scrollContainer := JQ_null\<rparr>)"

text \<open>
  The interval's callback (lines 303 to 306). It reads the closure variable
  \<^verbatim>\<open>$scrollContainer\<close> when it runs, and \<^verbatim>\<open>scrollDiff\<close> from the call of
  \<open>onDroppableEdgeEnter\<close> that started it. jQuery's \<^verbatim>\<open>scrollTop()\<close> reads the first element
  of the set and \<^verbatim>\<open>scrollTop(v)\<close> assigns every element of it; on the empty set the
  getter gives \<^verbatim>\<open>undefined\<close> and the setter does nothing. A method call on \<^verbatim>\<open>null\<close> or
  \<^verbatim>\<open>undefined\<close> raises. The assignment is what the source asks for: a browser that
  clamps the offset to the scrollable range does so after it.
\<close>

datatype error = TypeError

definition scrollTick :: "int \<Rightarrow> world \<Rightarrow> error + world" where
  "scrollTick scrollDiff w =
    (case scrollContainer w of
       JQ cs \<Rightarrow>
         (case cs of
            [] \<Rightarrow> Inr w
          | c # _ \<Rightarrow>
              let top = scrollTop w c
              in Inr (w\<lparr>scrollTop := (\<lambda>x. if x \<in> set cs then top + scrollDiff else scrollTop w x)\<rparr>))
     | _ \<Rightarrow> Inl TypeError)"

text \<open>The listener for \<^verbatim>\<open>dnd-data-set\<close> (lines 382 to 384).\<close>

definition onDataSet :: "jsval \<Rightarrow> jsval \<Rightarrow> world \<Rightarrow> world" where
  "onDataSet type data w = (if type = dragType w then w\<lparr>dragData := data\<rparr> else w)"

subsection \<open>Constructors, destructors and plugins (lines 320 to 374)\<close>

text \<open>
  jQuery keeps, for every element, the listeners attached with \<^verbatim>\<open>.on\<close> and the values
  stored with \<^verbatim>\<open>$.data\<close>. \<^verbatim>\<open>.on('type.ns', selector, handler)\<close> adds one listener;
  \<^verbatim>\<open>.off('.ns')\<close> removes every listener of the namespace. A key never stored reads as
  \<^verbatim>\<open>undefined\<close>, here \<open>None\<close>.
\<close>

datatype handler =
  OnDragStart | OnDragEnd | OnDragEnter | OnDragOver | OnDragLeave | OnDragDrop
  | OnDroppableEdgeEnter | OnDroppableEdgeLeave | OnDataSet | Foreign nat

record listener =
  on_type :: string
  on_namespace :: string
  on_selector :: jsval
  on_handler :: handler

record page =
  listeners :: "elem_id \<Rightarrow> listener list"
  jq_data :: "elem_id \<Rightarrow> string \<Rightarrow> bool option"

definition jq_on :: "string \<Rightarrow> string \<Rightarrow> jsval \<Rightarrow> handler \<Rightarrow> elem_id \<Rightarrow> page \<Rightarrow> page" where
  "jq_on type ns selector h el p =
     p\<lparr>listeners := (listeners p)(el := listeners p el @
        [\<lparr>on_type = type, on_namespace = ns, on_selector = selector, on_handler = h\<rparr>])\<rparr>"

definition jq_off :: "string \<Rightarrow> elem_id \<Rightarrow> page \<Rightarrow> page" where
  "jq_off ns el p =
     p\<lparr>listeners := (listeners p)(el := filter (\<lambda>l. on_namespace l \<noteq> ns) (listeners p el))\<rparr>"

definition jq_data_set :: "elem_id \<Rightarrow> string \<Rightarrow> bool \<Rightarrow> page \<Rightarrow> page" where
  "jq_data_set el key v p = p\<lparr>jq_data := (jq_data p)(el := (jq_data p el)(key \<mapsto> v))\<rparr>"

definition initializeDraggable :: "string \<Rightarrow> elem_id \<Rightarrow> jsval \<Rightarrow> page \<Rightarrow> page" where
  "initializeDraggable ns el draggableSelector p =
     jq_on ''dragend'' ns draggableSelector OnDragEnd el
       (jq_on ''dragstart'' ns draggableSelector OnDragStart el p)"

definition initializeDroppable :: "string \<Rightarrow> elem_id \<Rightarrow> jsval \<Rightarrow> page \<Rightarrow> page" where
  "initializeDroppable ns el droppableSelector p =
     jq_on ''drop'' ns droppableSelector OnDragDrop el
       (jq_on ''dragleave'' ns droppableSelector OnDragLeave el
         (jq_on ''dragover'' ns droppableSelector OnDragOver el
           (jq_on ''dragenter'' ns droppableSelector OnDragEnter el p)))"

definition destroy :: "string \<Rightarrow> elem_id \<Rightarrow> page \<Rightarrow> page" where
  "destroy ns el p = jq_off ns el p"

text \<open>
  The argument of a plugin call: the string \<^verbatim>\<open>'destroy'\<close>, a falsy value (no argument),
  or any other value, of which only the \<^verbatim>\<open>selector\<close> property is read (\<open>Undefined\<close> when
  it has none).
\<close>

datatype options = Destroy | NoOptions | Options jsval

text \<open>The body of \<^verbatim>\<open>this.each\<close> (lines 345 to 355), for one element \<open>this\<close>.\<close>

definition html5Draggable_each :: "options \<Rightarrow> elem_id \<Rightarrow> page \<Rightarrow> page" where
  "html5Draggable_each options this p =
    (let initialized = (jq_data p this DEFAULT_DRAG_NAMESPACE = Some True)
     in if options = Destroy then
          (if initialized
           then jq_data_set this DEFAULT_DRAG_NAMESPACE False (destroy DEFAULT_DRAG_NAMESPACE this p)
           else p)
        else if \<not> initialized then
          let selector = (case options of Options s \<Rightarrow> s | _ \<Rightarrow> Str DRAGGABLE_SELECTOR)
          in jq_data_set this DEFAULT_DRAG_NAMESPACE True
               (initializeDraggable DEFAULT_DRAG_NAMESPACE this selector p)
        else p)"

definition html5Draggable :: "options \<Rightarrow> elem_id list \<Rightarrow> page \<Rightarrow> page" where
  "html5Draggable options els p = fold (html5Draggable_each options) els p"

definition html5Droppable_each :: "options \<Rightarrow> elem_id \<Rightarrow> page \<Rightarrow> page" where
  "html5Droppable_each options this p =
    (let initialized = (jq_data p this DEFAULT_DROP_NAMESPACE = Some True)
     in if options = Destroy then
          (if initialized
           then jq_data_set this DEFAULT_DROP_NAMESPACE False (destroy DEFAULT_DROP_NAMESPACE this p)
           else p)
        else if \<not> initialized then
          let selector = (case options of Options s \<Rightarrow> s | _ \<Rightarrow> Str DROPPABLE_SELECTOR)
          in jq_data_set this DEFAULT_DROP_NAMESPACE True
               (initializeDroppable DEFAULT_DROP_NAMESPACE this selector p)
        else p)"

definition html5Droppable :: "options \<Rightarrow> elem_id list \<Rightarrow> page \<Rightarrow> page" where
  "html5Droppable options els p = fold (html5Droppable_each options) els p"

text \<open>The deferred set-up block (lines 379 to 396).\<close>

definition deferred_init :: "page \<Rightarrow> page" where
  "deferred_init p =
    (let p1 = jq_on ''dnd-data-set'' [] Undefined OnDataSet document p;
         p2 = html5Draggable NoOptions [document] p1;
         p3 = html5Droppable NoOptions [document] p2;
         p4 = jq_on ''dragenter'' DEFAULT_DROP_NAMESPACE (Str DROPPABLE_EDGE_SELECTOR)
                OnDroppableEdgeEnter document p3
     in jq_on ''dragleave'' DEFAULT_DROP_NAMESPACE (Str DROPPABLE_EDGE_SELECTOR)
          OnDroppableEdgeLeave document p4)"

text \<open>A page on which nothing has been attached or stored yet.\<close>

definition empty_page :: page where
  "empty_page = \<lparr>listeners = (\<lambda>el. []), jq_data = (\<lambda>el key. None)\<rparr>"

subsection \<open>The plugin as a machine\<close>

text \<open>
  What can happen to the closure after set-up: jQuery delivers a native event to one of
  the eight handlers, application code triggers \<^verbatim>\<open>dnd-data-set\<close>, the oldest pending
  timeout runs, or a running interval timer ticks. A callback that raises leaves the world
  as it was.
\<close>

datatype input =
  DragStart event | DragEnd event | DragEnter event | DragOver event | DragLeave event
  | Drop event | EdgeEnter event | EdgeLeave event | DataSet jsval jsval
  | TimeoutFires | IntervalFires nat

definition runCallback :: "callback \<Rightarrow> world \<Rightarrow> world" where
  "runCallback cb w = (case cb of SetDraggingState \<Rightarrow> setDraggingState w
                       | ClearDraggingState \<Rightarrow> clearDraggingState w)"

fun step :: "input \<Rightarrow> world \<Rightarrow> world" where
  "step (DragStart e) w = snd (onDragStart e w)"
| "step (DragEnd e) w = snd (onDragEnd e w)"
| "step (DragEnter e) w = snd (onDragEnter e w)"
| "step (DragOver e) w = snd (snd (onDragOver e w))"
| "step (DragLeave e) w = snd (onDragLeave e w)"
| "step (Drop e) w = snd (onDragDrop e w)"
| "step (EdgeEnter e) w = snd (onDroppableEdgeEnter e w)"
| "step (EdgeLeave e) w = snd (onDroppableEdgeLeave e w)"
| "step (DataSet type data) w = onDataSet type data w"
| "step TimeoutFires w =
     (case timeouts w of [] \<Rightarrow> w | t # ts \<Rightarrow> runCallback (fst t) (w\<lparr>timeouts := ts\<rparr>))"
| "step (IntervalFires h) w =
     (case map_of (intervals w) h of None \<Rightarrow> w
      | Some t \<Rightarrow> (case scrollTick (snd t) w of Inl err \<Rightarrow> w | Inr w' \<Rightarrow> w'))"

definition run :: "input list \<Rightarrow> world \<Rightarrow> world" where
  "run ins w = fold step ins w"

text \<open>Every pending timeout runs, oldest first.\<close>

definition flush :: "world \<Rightarrow> world" where
  "flush w = fold runCallback (map fst (timeouts w)) (w\<lparr>timeouts := []\<rparr>)"

text \<open>
  The world when the closure has been created (lines 117 to 132: two variables are
  initialised, the others are \<^verbatim>\<open>undefined\<close>) on a document that no timer of the plugin
  has touched: nothing is pending or logged and the body has no dragging attribute.
\<close>

definition initial :: "world \<Rightarrow> bool" where
  "initial w =
    (dragData w = Undefined \<and> dragType w = Undefined \<and> \<not> triggerDraggableEvents w \<and>
     \<not> cancelled w \<and> scrollInterval w = None \<and> scrollContainer w = JQ_undefined \<and>
     timeouts w = [] \<and> intervals w = [] \<and> triggered w = [] \<and>
     attributes w document_body GLOBAL_DRAGGING_ATTR = None)"

subsection \<open>Notions of the specification\<close>

text \<open>
  The type or accepted type an element declares, read from the markup: the first
  attribute when it is present and not empty, else the second as it stands.
\<close>

definition resolved :: "world \<Rightarrow> elem_id \<Rightarrow> string \<Rightarrow> string \<Rightarrow> string option" where
  "resolved w el first second =
     (if attributes w el first = None \<or> attributes w el first = Some []
      then attributes w el second else attributes w el first)"

text \<open>The payload an element declares, the empty string when it declares none.\<close>

definition declared_payload :: "world \<Rightarrow> elem_id \<Rightarrow> string" where
  "declared_payload w el =
     (case attributes w el ''data-draggable-data'' of None \<Rightarrow> [] | Some d \<Rightarrow> d)"

text \<open>The Global Dragging Indicator: the dragging attribute of the body.\<close>

definition indicator :: "world \<Rightarrow> string option" where
  "indicator w = attributes w document_body GLOBAL_DRAGGING_ATTR"

text \<open>The four session fields of the store.\<close>

definition store :: "world \<Rightarrow> jsval \<times> jsval \<times> bool \<times> bool" where
  "store w = (dragType w, dragData w, cancelled w, triggerDraggableEvents w)"

text \<open>A store that holds no session data: every field has the value it had before the
  first drag.\<close>

definition store_cleared :: "world \<Rightarrow> bool" where
  "store_cleared w = (store w = (Undefined, Undefined, False, False))"

text \<open>
  The closure has no variable that says whether a session is live, so the session of the
  specification is followed beside the machine. Its lifecycle is the specification's: a
  session is created at \<^verbatim>\<open>dragstart\<close> on an element whose type resolves and is not empty
  (replacing any prior session); \<^verbatim>\<open>drop\<close> reads it and ends it; \<^verbatim>\<open>dragend\<close> destroys it.
  \<open>session_step i w s\<close> is the live session's type after input \<open>i\<close> arrives in world \<open>w\<close>
  with session \<open>s\<close>.
\<close>

definition session_step :: "input \<Rightarrow> world \<Rightarrow> string option \<Rightarrow> string option" where
  "session_step i w s =
    (case i of
       DragStart e \<Rightarrow>
         (case resolved w (target e) ''data-draggable'' ''data-draggable-type'' of
            None \<Rightarrow> s
          | Some T \<Rightarrow> if T = [] then s else Some T)
     | Drop e \<Rightarrow> None
     | DragEnd e \<Rightarrow> None
     | _ \<Rightarrow> s)"

fun session_after :: "input list \<Rightarrow> world \<Rightarrow> string option \<Rightarrow> string option" where
  "session_after [] w s = s"
| "session_after (i # ins) w s = session_after ins (step i w) (session_step i w s)"


text \<open>At most one interval timer runs, and it is the one whose handle the closure holds.\<close>

definition one_timer :: "world \<Rightarrow> bool" where
  "one_timer w =
    (case intervals w of [] \<Rightarrow> True
     | t # ts \<Rightarrow> ts = [] \<and> scrollInterval w = Some (fst t))"

subsection \<open>A document to run the handlers on\<close>

text \<open>
  The specification's end-to-end scenario with two edge sentinels added. Element 2 is the
  draggable \<open>A\<close> (type \<^verbatim>\<open>card\<close>, payload \<^verbatim>\<open>42\<close>, custom events on), 3 the droppable \<open>B\<close>
  (accepts \<^verbatim>\<open>card\<close>), 4 the droppable \<open>C\<close> (accepts \<^verbatim>\<open>task\<close>), 5 a draggable element with
  no type, 6 a top sentinel naming the container \<^verbatim>\<open>#list\<close>, 7 a bottom sentinel written as
  the header comment of the source shows it, 8 the container, 9 a top sentinel naming a
  container that does not exist, and 10 a bottom sentinel that names the container too.
\<close>

definition scenario_attributes :: "elem_id \<Rightarrow> string \<Rightarrow> string option" where
  "scenario_attributes =
    (\<lambda>el. Map.empty)
     (2 := [''draggable'' \<mapsto> ''true'', ''data-draggable'' \<mapsto> ''card'',
            ''data-draggable-data'' \<mapsto> ''42'', ''data-draggable-trigger'' \<mapsto> ''true''],
      3 := [''data-droppable'' \<mapsto> ''card''],
      4 := [''data-droppable'' \<mapsto> ''task''],
      5 := [''draggable'' \<mapsto> ''true''],
      6 := [''data-droppable-edge'' \<mapsto> ''top'', ''data-droppable-edge-container'' \<mapsto> ''#list''],
      7 := [''data-droppable-edge'' \<mapsto> ''bottom''],
      8 := [''id'' \<mapsto> ''list''],
      9 := [''data-droppable-edge'' \<mapsto> ''top'', ''data-droppable-edge-container'' \<mapsto> ''#none''],
      10 := [''data-droppable-edge'' \<mapsto> ''bottom'',
             ''data-droppable-edge-container'' \<mapsto> ''#list''])"

definition scenario :: world where
  "scenario =
    \<lparr>dragData = Undefined, dragType = Undefined, triggerDraggableEvents = False,
     cancelled = False, scrollInterval = None, scrollContainer = JQ_undefined,
     attributes = scenario_attributes, classList = (\<lambda>el. {}),
     elementById = [''list'' \<mapsto> 8],
     query = (\<lambda>selector. if selector = ''#list'' then [8] else []),
     scrollTop = (\<lambda>c. 100), timeouts = [], intervals = [], nextTimer = 1, triggered = []\<rparr>"

text \<open>A native event as the browser creates it, delivered at element \<open>el\<close>.\<close>

definition native_event :: "elem_id \<Rightarrow> event" where
  "native_event el =
    \<lparr>target = el, currentTarget = el, propagationStopped = False, defaultPrevented = False,
     dataTransfer = \<lparr>effectAllowed = None, dropEffect = None, transferData = Map.empty,
                     dragImage = None, hasSetDragImage = True\<rparr>\<rparr>"

section \<open>Properties\<close>

subsection \<open>Reading the markup\<close>

lemma js_or_getAttribute:
  "js_or (getAttribute w el a) (getAttribute w el b) =
     (case resolved w el a b of None \<Rightarrow> Null | Some s \<Rightarrow> Str s)"
  by (simp add: js_or_def getAttribute_def resolved_def truthy_def split: option.splits)

lemma truthy_resolved:
  "truthy (js_or (getAttribute w el a) (getAttribute w el b)) =
     (\<exists>T. resolved w el a b = Some T \<and> T \<noteq> [])"
  by (simp add: js_or_getAttribute truthy_def split: option.splits)

lemma js_or_payload:
  "js_or (getAttribute w el ''data-draggable-data'') (Str []) = Str (declared_payload w el)"
  by (simp add: js_or_def getAttribute_def declared_payload_def truthy_def split: option.splits)

lemma scenario_simps:
  "dragData scenario = Undefined" "dragType scenario = Undefined"
  "triggerDraggableEvents scenario = False" "cancelled scenario = False"
  "scrollInterval scenario = None" "scrollContainer scenario = JQ_undefined"
  "attributes scenario = scenario_attributes" "classList scenario = (\<lambda>el. {})"
  "timeouts scenario = []" "intervals scenario = []" "nextTimer scenario = 1"
  "triggered scenario = []" "scrollTop scenario = (\<lambda>c. 100)"
  "query scenario = (\<lambda>selector. if selector = ''#list'' then [8] else [])"
  by (simp_all add: scenario_def)

lemma native_event_simps:
  "target (native_event el) = el" "currentTarget (native_event el) = el"
  "propagationStopped (native_event el) = False" "defaultPrevented (native_event el) = False"
  "hasSetDragImage (dataTransfer (native_event el)) = True"
  by (simp_all add: native_event_def)

subsection \<open>The type gate of \<open>onDragEnter\<close>\<close>

text \<open>
  Claim C1. While a session of type \<open>T\<close> is active (the store's type is the string \<open>T\<close>), a
  \<^verbatim>\<open>dragenter\<close> delivered at a droppable element sets the cancelled flag to "the accepted
  type the element declares, read from \<^verbatim>\<open>data-droppable\<close> or else from
  \<^verbatim>\<open>data-droppable-type\<close>, is not \<open>T\<close>". When the flag comes out set the handler has done
  nothing else: the event is as it was, so it goes on bubbling, and only the flag of the
  world differs. When it comes out clear the handler has set the drop effect to
  \<^verbatim>\<open>move\<close>, added the hover class to the element and stopped propagation. The flag the
  world held before the \<^verbatim>\<open>dragenter\<close> has no influence on the outcome.
\<close>

theorem onDragEnter_type_gate:
  assumes "dragType w = Str T"
  shows "cancelled (snd (onDragEnter e w)) =
           (resolved w (currentTarget e) ''data-droppable'' ''data-droppable-type'' \<noteq> Some T)
       \<and> (if cancelled (snd (onDragEnter e w))
          then onDragEnter e w = (e, w\<lparr>cancelled := True\<rparr>)
          else onDragEnter e w =
                 (e\<lparr>propagationStopped := True,
                    dataTransfer := (dataTransfer e)\<lparr>dropEffect := Some ''move''\<rparr>\<rparr>,
                  w\<lparr>cancelled := False,
                    classList := (classList w)(currentTarget e :=
                      insert ''droppable-hover'' (classList w (currentTarget e)))\<rparr>))
       \<and> onDragEnter e (w\<lparr>cancelled := b\<rparr>) = onDragEnter e w"
proof -
  let ?acc = "js_or (getAttribute w (currentTarget e) ''data-droppable'')
                    (getAttribute w (currentTarget e) ''data-droppable-type'')"
  have c: "cancelled (snd (onDragEnter e w)) = (?acc \<noteq> dragType w)"
    by (simp add: onDragEnter_def Let_def classList_add_def getAttribute_def)
  have "(?acc \<noteq> dragType w) =
        (resolved w (currentTarget e) ''data-droppable'' ''data-droppable-type'' \<noteq> Some T)"
    using assms by (simp add: js_or_getAttribute split: option.splits)
  with c have 1: "cancelled (snd (onDragEnter e w)) =
           (resolved w (currentTarget e) ''data-droppable'' ''data-droppable-type'' \<noteq> Some T)"
    by simp
  have 2: "if cancelled (snd (onDragEnter e w))
          then onDragEnter e w = (e, w\<lparr>cancelled := True\<rparr>)
          else onDragEnter e w =
                 (e\<lparr>propagationStopped := True,
                    dataTransfer := (dataTransfer e)\<lparr>dropEffect := Some ''move''\<rparr>\<rparr>,
                  w\<lparr>cancelled := False,
                    classList := (classList w)(currentTarget e :=
                      insert ''droppable-hover'' (classList w (currentTarget e)))\<rparr>)"
    by (simp add: onDragEnter_def Let_def classList_add_def stopPropagation_def
        DROPPABLE_HOVER_CLASS_def getAttribute_def)
  have 3: "onDragEnter e (w\<lparr>cancelled := b\<rparr>) = onDragEnter e w"
    by (simp add: onDragEnter_def Let_def classList_add_def getAttribute_def)
  from 1 2 3 show ?thesis by blast
qed

text \<open>In the scenario, with a \<^verbatim>\<open>card\<close> session active: \<open>B\<close> accepts and stops the event,
  \<open>C\<close> cancels and lets it bubble.\<close>

theorem onDragEnter_type_gate_witness:
  "dragType (scenario\<lparr>dragType := Str ''card''\<rparr>) = Str ''card''
   \<and> \<not> cancelled (snd (onDragEnter (native_event 3) (scenario\<lparr>dragType := Str ''card''\<rparr>)))
   \<and> propagationStopped (fst (onDragEnter (native_event 3) (scenario\<lparr>dragType := Str ''card''\<rparr>)))
   \<and> cancelled (snd (onDragEnter (native_event 4) (scenario\<lparr>dragType := Str ''card''\<rparr>)))
   \<and> \<not> propagationStopped (fst (onDragEnter (native_event 4) (scenario\<lparr>dragType := Str ''card''\<rparr>)))"
proof -
  let ?w = "scenario\<lparr>dragType := Str ''card''\<rparr>"
  have h: "dragType ?w = Str ''card''" by simp
  have r3: "resolved ?w 3 ''data-droppable'' ''data-droppable-type'' = Some ''card''"
    and r4: "resolved ?w 4 ''data-droppable'' ''data-droppable-type'' = Some ''task''"
    by (simp_all add: resolved_def scenario_simps scenario_attributes_def)
  have c3: "\<not> cancelled (snd (onDragEnter (native_event 3) ?w))"
    using onDragEnter_type_gate [OF h, of "native_event 3"] r3
    by (simp add: native_event_simps)
  have c4: "cancelled (snd (onDragEnter (native_event 4) ?w))"
    using onDragEnter_type_gate [OF h, of "native_event 4"] r4
    by (simp add: native_event_simps)
  have p3: "propagationStopped (fst (onDragEnter (native_event 3) ?w))"
    using onDragEnter_type_gate [OF h, of "native_event 3"] c3 by simp
  have p4: "\<not> propagationStopped (fst (onDragEnter (native_event 4) ?w))"
    using onDragEnter_type_gate [OF h, of "native_event 4"] c4
    by (simp add: native_event_simps)
  from h c3 c4 p3 p4 show ?thesis by blast
qed

lemma scenario_resolved:
  "resolved scenario 2 ''data-draggable'' ''data-draggable-type'' = Some ''card''"
  "resolved scenario 5 ''data-draggable'' ''data-draggable-type'' = None"
  "declared_payload scenario 2 = ''42''"
  by (simp_all add: resolved_def declared_payload_def scenario_simps scenario_attributes_def)

lemma initial_scenario: "initial scenario"
  by (simp add: initial_def scenario_simps scenario_attributes_def document_body_def
      GLOBAL_DRAGGING_ATTR_def)

subsection \<open>Pending timeouts and the indicator\<close>

lemma dragType_runCallback [simp]: "dragType (runCallback cb w) = dragType w"
  by (cases cb) (simp_all add: runCallback_def setDraggingState_def clearDraggingState_def
      setAttribute_def removeAttribute_def)

lemma dragType_fold_runCallback [simp]: "dragType (fold runCallback cbs w) = dragType w"
  by (induction cbs arbitrary: w) simp_all

lemma indicator_runCallback:
  "indicator (runCallback cb w) =
     (case cb of SetDraggingState \<Rightarrow> Some (to_string (dragType w)) | ClearDraggingState \<Rightarrow> None)"
  by (cases cb) (simp_all add: runCallback_def setDraggingState_def clearDraggingState_def
      setAttribute_def removeAttribute_def indicator_def)

text \<open>After a run of callbacks the indicator is what the last of them left.\<close>

lemma indicator_fold_runCallback:
  "indicator (fold runCallback cbs w) =
     (if cbs = [] then indicator w
      else case last cbs of SetDraggingState \<Rightarrow> Some (to_string (dragType w))
           | ClearDraggingState \<Rightarrow> None)"
proof (induction cbs rule: rev_induct)
  case Nil
  show ?case by simp
next
  case (snoc cb cbs)
  show ?case by (simp add: indicator_runCallback split: callback.splits)
qed

lemma indicator_timeouts_update [simp]: "indicator (w\<lparr>timeouts := ts\<rparr>) = indicator w"
  by (simp add: indicator_def)

lemma indicator_flush:
  "indicator (flush w) =
     (if timeouts w = [] then indicator w
      else case fst (last (timeouts w)) of SetDraggingState \<Rightarrow> Some (to_string (dragType w))
           | ClearDraggingState \<Rightarrow> None)"
  by (simp add: flush_def indicator_fold_runCallback last_map split: callback.splits)

subsection \<open>\<open>onDragStart\<close>\<close>

lemma onDragStart_untyped:
  assumes "resolved w (target e) ''data-draggable'' ''data-draggable-type'' = None \<or>
           resolved w (target e) ''data-draggable'' ''data-draggable-type'' = Some []"
  shows "onDragStart e w = (e, w)"
proof -
  from assms have "\<not> truthy (js_or (getAttribute w (target e) ''data-draggable'')
                                   (getAttribute w (target e) ''data-draggable-type''))"
    by (auto simp: truthy_resolved)
  then show ?thesis by (simp add: onDragStart_def Let_def)
qed

lemma onDragStart_typed:
  assumes "resolved w (target e) ''data-draggable'' ''data-draggable-type'' = Some T" "T \<noteq> []"
  shows "dragType (snd (onDragStart e w)) = Str T"
    and "dragData (snd (onDragStart e w)) = Str (declared_payload w (target e))"
    and "''draggable-dragging'' \<in> classList (snd (onDragStart e w)) (target e)"
    and "timeouts (snd (onDragStart e w)) = timeouts w @ [(SetDraggingState, 1)]"
    and "attributes (snd (onDragStart e w)) = attributes w"
proof -
  let ?type = "js_or (getAttribute w (target e) ''data-draggable'')
                     (getAttribute w (target e) ''data-draggable-type'')"
  from assms have ty: "?type = Str T" by (simp add: js_or_getAttribute)
  from assms have tr: "truthy ?type" by (simp add: truthy_resolved)
  show "dragType (snd (onDragStart e w)) = Str T"
    using ty tr
    by (simp add: onDragStart_def Let_def setTimeout_def trigger_def classList_add_def)
  show "dragData (snd (onDragStart e w)) = Str (declared_payload w (target e))"
    using tr js_or_payload [of w "target e"]
    by (simp add: onDragStart_def Let_def setTimeout_def trigger_def classList_add_def)
  show "''draggable-dragging'' \<in> classList (snd (onDragStart e w)) (target e)"
    using tr
    by (simp add: onDragStart_def Let_def setTimeout_def trigger_def classList_add_def
        DRAGGABLE_DRAGGING_CLASS_def)
  show "timeouts (snd (onDragStart e w)) = timeouts w @ [(SetDraggingState, 1)]"
    using tr
    by (simp add: onDragStart_def Let_def setTimeout_def trigger_def classList_add_def)
  show "attributes (snd (onDragStart e w)) = attributes w"
    using tr
    by (simp add: onDragStart_def Let_def setTimeout_def trigger_def classList_add_def)
qed

text \<open>
  Claim C2. A \<^verbatim>\<open>dragstart\<close> on an element whose type, read from \<^verbatim>\<open>data-draggable\<close> or else
  from \<^verbatim>\<open>data-draggable-type\<close>, is absent or empty returns the event and the world as they
  were: no field of the store is written, no class is added, nothing is triggered and no
  timer is set, so the indicator stays as it is. On an element whose type \<open>T\<close> resolves and
  is not empty, the store afterwards holds \<open>T\<close> and the declared payload (the empty string
  when none is declared), the element carries the dragging class, one timeout that sets
  the indicator has been added, and once the pending timeouts have run the indicator is
  \<open>T\<close>.
\<close>

theorem onDragStart_requires_type:
  "(resolved w (target e) ''data-draggable'' ''data-draggable-type'' = None \<or>
    resolved w (target e) ''data-draggable'' ''data-draggable-type'' = Some []
      \<longrightarrow> onDragStart e w = (e, w))
   \<and> (\<forall>T. resolved w (target e) ''data-draggable'' ''data-draggable-type'' = Some T \<and> T \<noteq> []
      \<longrightarrow> dragType (snd (onDragStart e w)) = Str T
        \<and> dragData (snd (onDragStart e w)) = Str (declared_payload w (target e))
        \<and> ''draggable-dragging'' \<in> classList (snd (onDragStart e w)) (target e)
        \<and> timeouts (snd (onDragStart e w)) = timeouts w @ [(SetDraggingState, 1)]
        \<and> indicator (flush (snd (onDragStart e w))) = Some T)"
proof (intro conjI impI allI)
  assume "resolved w (target e) ''data-draggable'' ''data-draggable-type'' = None \<or>
    resolved w (target e) ''data-draggable'' ''data-draggable-type'' = Some []"
  then show "onDragStart e w = (e, w)" by (rule onDragStart_untyped)
next
  fix T
  assume "resolved w (target e) ''data-draggable'' ''data-draggable-type'' = Some T \<and> T \<noteq> []"
  then have a: "resolved w (target e) ''data-draggable'' ''data-draggable-type'' = Some T"
    and b: "T \<noteq> []" by simp_all
  show "dragType (snd (onDragStart e w)) = Str T"
    and "dragData (snd (onDragStart e w)) = Str (declared_payload w (target e))"
    and "''draggable-dragging'' \<in> classList (snd (onDragStart e w)) (target e)"
    and "timeouts (snd (onDragStart e w)) = timeouts w @ [(SetDraggingState, 1)]"
    by (rule onDragStart_typed [OF a b])+
  show "indicator (flush (snd (onDragStart e w))) = Some T"
    by (simp add: indicator_flush onDragStart_typed [OF a b] to_string_def)
qed

text \<open>In the scenario: element 5 declares no type, \<open>A\<close> declares \<^verbatim>\<open>card\<close> and \<^verbatim>\<open>42\<close>.\<close>

theorem onDragStart_requires_type_witness:
  "resolved scenario (target (native_event 5)) ''data-draggable'' ''data-draggable-type'' = None
   \<and> onDragStart (native_event 5) scenario = (native_event 5, scenario)
   \<and> resolved scenario (target (native_event 2)) ''data-draggable'' ''data-draggable-type''
       = Some ''card''
   \<and> ''card'' \<noteq> []
   \<and> dragType (snd (onDragStart (native_event 2) scenario)) = Str ''card''
   \<and> dragData (snd (onDragStart (native_event 2) scenario)) = Str ''42''
   \<and> indicator (flush (snd (onDragStart (native_event 2) scenario))) = Some ''card''"
  using onDragStart_requires_type [of scenario "native_event 5"]
    onDragStart_requires_type [of scenario "native_event 2"]
  by (simp add: scenario_resolved native_event_simps)

subsection \<open>\<open>onDragEnd\<close>\<close>

lemma onDragEnd_world:
  "snd (onDragEnd e w) =
     w\<lparr>classList := (classList w)(target e := classList w (target e) - {''draggable-dragging''}),
       triggered := (if triggerDraggableEvents w
                     then triggered w @ [\<lparr>ev_name = ''dnd-end'', ev_target = target e,
                            ev_original = e, ev_dragType = dragType w, ev_dragData = dragData w\<rparr>]
                     else triggered w),
       triggerDraggableEvents := False,
       timeouts := timeouts w @ [(ClearDraggingState, 1)],
       nextTimer := Suc (nextTimer w)\<rparr>"
  by (simp add: onDragEnd_def Let_def classList_remove_def trigger_def setTimeout_def
      DRAGGABLE_DRAGGING_CLASS_def)

lemma store_onDragEnd:
  "store (snd (onDragEnd e w)) = (dragType w, dragData w, cancelled w, False)"
  by (simp add: onDragEnd_world store_def)

text \<open>
  Claim C3, as the source has it. At \<^verbatim>\<open>dragend\<close> the handler removes the dragging class
  from the target, triggers \<^verbatim>\<open>dnd-end\<close> when the custom-events flag is set, clears that
  flag, and sets one timeout that clears the indicator. Of the four session fields only the
  custom-events flag is reset: the type, the payload and the cancellation flag keep the
  values they had. On the four fields a second \<^verbatim>\<open>dragend\<close> changes nothing.
\<close>

theorem onDragEnd_resets_only_the_events_flag:
  "snd (onDragEnd e w) =
     w\<lparr>classList := (classList w)(target e := classList w (target e) - {''draggable-dragging''}),
       triggered := (if triggerDraggableEvents w
                     then triggered w @ [\<lparr>ev_name = ''dnd-end'', ev_target = target e,
                            ev_original = e, ev_dragType = dragType w, ev_dragData = dragData w\<rparr>]
                     else triggered w),
       triggerDraggableEvents := False,
       timeouts := timeouts w @ [(ClearDraggingState, 1)],
       nextTimer := Suc (nextTimer w)\<rparr>
   \<and> store (snd (onDragEnd e w)) = (dragType w, dragData w, cancelled w, False)
   \<and> store (snd (onDragEnd e' (snd (onDragEnd e w)))) = store (snd (onDragEnd e w))"
proof -
  have "store (snd (onDragEnd e' (snd (onDragEnd e w)))) = store (snd (onDragEnd e w))"
    unfolding store_onDragEnd by (simp add: onDragEnd_world)
  with store_onDragEnd [of e w] onDragEnd_world [of e w] show ?thesis by blast
qed

text \<open>
  Claim C3, as the specification states it, fails: in the scenario, after \<^verbatim>\<open>dragstart\<close> and
  \<^verbatim>\<open>dragend\<close> on \<open>A\<close> the store still holds the type \<^verbatim>\<open>card\<close> and the payload \<^verbatim>\<open>42\<close>.
\<close>

theorem onDragEnd_store_not_cleared:
  "\<not> store_cleared (snd (onDragEnd (native_event 2) (snd (onDragStart (native_event 2) scenario))))"
proof -
  have "dragType (snd (onDragStart (native_event 2) scenario)) = Str ''card''"
    using onDragStart_typed(1) [of scenario "native_event 2" "''card''"]
    by (simp add: scenario_resolved native_event_simps)
  then show ?thesis
    by (simp add: store_cleared_def store_onDragEnd)
qed

subsection \<open>\<open>onDragOver\<close>\<close>

text \<open>
  Claim C8. A \<^verbatim>\<open>dragover\<close> delivered at a droppable element, when the session is not
  cancelled, prevents the default action and returns \<^verbatim>\<open>false\<close>; when it is cancelled the
  event is left as it was and nothing is returned. In both cases the world is unchanged: no
  event is triggered and no field of the store is written.
\<close>

theorem onDragOver_prevents_default_unless_cancelled:
  "onDragOver e w =
     (if cancelled w then (ReturnsUndefined, e, w)
      else (ReturnsFalse, e\<lparr>defaultPrevented := True\<rparr>, w))
   \<and> snd (snd (onDragOver e w)) = w
   \<and> triggered (snd (snd (onDragOver e w))) = triggered w
   \<and> store (snd (snd (onDragOver e w))) = store w"
  by (simp add: onDragOver_def preventDefault_def)

subsection \<open>\<open>onDragDrop\<close>\<close>

lemma onDragDrop_result:
  "onDragDrop e w =
     (e\<lparr>propagationStopped := True, defaultPrevented := True\<rparr>,
      w\<lparr>classList := (classList w)(currentTarget e :=
           classList w (currentTarget e) - {''droppable-hover''}),
        triggered := triggered w @
          [\<lparr>ev_name = ''dnd-drop'', ev_target = currentTarget e,
            ev_original = e\<lparr>propagationStopped := True, defaultPrevented := True\<rparr>,
            ev_dragType = dragType w, ev_dragData = dragData w\<rparr>],
        timeouts := timeouts w @ [(ClearDraggingState, 1)],
        nextTimer := Suc (nextTimer w)\<rparr>)"
  by (simp add: onDragDrop_def Let_def classList_remove_def trigger_def setTimeout_def
      stopPropagation_def preventDefault_def DROPPABLE_HOVER_CLASS_def)

text \<open>
  Claim C9. Whatever the world and the element, a \<^verbatim>\<open>drop\<close> stops propagation, prevents
  the default action, removes the hover class and triggers \<^verbatim>\<open>dnd-drop\<close> with the type and
  the payload the store holds at that moment; neither the cancellation flag nor the
  element's accepted type is looked at. When no session was ever opened both are
  \<^verbatim>\<open>undefined\<close>; when the store holds a type \<open>T\<close> that the element does not accept, the
  event carries \<open>T\<close> and the stored payload all the same.
\<close>

theorem onDragDrop_unconditional:
  "onDragDrop e w =
     (e\<lparr>propagationStopped := True, defaultPrevented := True\<rparr>,
      w\<lparr>classList := (classList w)(currentTarget e :=
           classList w (currentTarget e) - {''droppable-hover''}),
        triggered := triggered w @
          [\<lparr>ev_name = ''dnd-drop'', ev_target = currentTarget e,
            ev_original = e\<lparr>propagationStopped := True, defaultPrevented := True\<rparr>,
            ev_dragType = dragType w, ev_dragData = dragData w\<rparr>],
        timeouts := timeouts w @ [(ClearDraggingState, 1)],
        nextTimer := Suc (nextTimer w)\<rparr>)
   \<and> (initial w \<longrightarrow>
        ev_dragType (last (triggered (snd (onDragDrop e w)))) = Undefined
        \<and> ev_dragData (last (triggered (snd (onDragDrop e w)))) = Undefined)
   \<and> (dragType w = Str T \<and>
       resolved w (currentTarget e) ''data-droppable'' ''data-droppable-type'' \<noteq> Some T \<longrightarrow>
        ev_dragType (last (triggered (snd (onDragDrop e w)))) = Str T
        \<and> ev_dragData (last (triggered (snd (onDragDrop e w)))) = dragData w)"
  by (simp add: onDragDrop_result initial_def)

text \<open>In the scenario: a drop on \<open>B\<close> before any drag, and a drop of a \<^verbatim>\<open>card\<close> on \<open>C\<close>,
  which accepts \<^verbatim>\<open>task\<close>.\<close>

theorem onDragDrop_unconditional_witness:
  "initial scenario
   \<and> ev_dragType (last (triggered (snd (onDragDrop (native_event 3) scenario)))) = Undefined
   \<and> ev_dragData (last (triggered (snd (onDragDrop (native_event 3) scenario)))) = Undefined
   \<and> dragType (scenario\<lparr>dragType := Str ''card'', dragData := Str ''42''\<rparr>) = Str ''card''
   \<and> resolved (scenario\<lparr>dragType := Str ''card'', dragData := Str ''42''\<rparr>)
        (currentTarget (native_event 4)) ''data-droppable'' ''data-droppable-type'' \<noteq> Some ''card''
   \<and> ev_dragType (last (triggered (snd (onDragDrop (native_event 4)
        (scenario\<lparr>dragType := Str ''card'', dragData := Str ''42''\<rparr>))))) = Str ''card''
   \<and> ev_dragData (last (triggered (snd (onDragDrop (native_event 4)
        (scenario\<lparr>dragType := Str ''card'', dragData := Str ''42''\<rparr>))))) = Str ''42''"
proof -
  let ?w = "scenario\<lparr>dragType := Str ''card'', dragData := Str ''42''\<rparr>"
  have r: "resolved ?w (currentTarget (native_event 4)) ''data-droppable'' ''data-droppable-type''
        \<noteq> Some ''card''"
    by (simp add: resolved_def scenario_simps scenario_attributes_def native_event_simps)
  have t: "dragType ?w = Str ''card''" by simp
  show ?thesis
    using onDragDrop_unconditional [of "native_event 3" scenario]
      onDragDrop_unconditional [of "native_event 4" ?w "''card''"] initial_scenario r t
    by (simp add: scenario_simps)
qed

subsection \<open>What each input leaves alone\<close>

lemma scrollTick_frame:
  assumes "scrollTick d w = Inr w'"
  shows "dragType w' = dragType w" "dragData w' = dragData w" "timeouts w' = timeouts w"
    "attributes w' = attributes w" "intervals w' = intervals w"
    "scrollInterval w' = scrollInterval w" "scrollContainer w' = scrollContainer w"
    "triggered w' = triggered w"
  using assms by (auto simp: scrollTick_def Let_def split: jq.splits list.splits)

lemma onDragEnter_frame:
  "dragType (snd (onDragEnter e w)) = dragType w" "dragData (snd (onDragEnter e w)) = dragData w"
  "timeouts (snd (onDragEnter e w)) = timeouts w" "attributes (snd (onDragEnter e w)) = attributes w"
  "intervals (snd (onDragEnter e w)) = intervals w"
  "scrollInterval (snd (onDragEnter e w)) = scrollInterval w"
  "triggered (snd (onDragEnter e w)) = triggered w"
  by (simp_all add: onDragEnter_def Let_def classList_add_def)

lemma onDragLeave_frame:
  "dragType (snd (onDragLeave e w)) = dragType w" "dragData (snd (onDragLeave e w)) = dragData w"
  "timeouts (snd (onDragLeave e w)) = timeouts w" "attributes (snd (onDragLeave e w)) = attributes w"
  "intervals (snd (onDragLeave e w)) = intervals w"
  "scrollInterval (snd (onDragLeave e w)) = scrollInterval w"
  "triggered (snd (onDragLeave e w)) = triggered w"
  by (simp_all add: onDragLeave_def classList_remove_def)

lemma onDroppableEdgeEnter_frame:
  "dragType (snd (onDroppableEdgeEnter e w)) = dragType w"
  "dragData (snd (onDroppableEdgeEnter e w)) = dragData w"
  "timeouts (snd (onDroppableEdgeEnter e w)) = timeouts w"
  "attributes (snd (onDroppableEdgeEnter e w)) = attributes w"
  "triggered (snd (onDroppableEdgeEnter e w)) = triggered w"
  by (simp_all add: onDroppableEdgeEnter_def Let_def setInterval_def clearInterval_def
      split: option.splits)

lemma onDroppableEdgeLeave_frame:
  "dragType (snd (onDroppableEdgeLeave e w)) = dragType w"
  "dragData (snd (onDroppableEdgeLeave e w)) = dragData w"
  "timeouts (snd (onDroppableEdgeLeave e w)) = timeouts w"
  "attributes (snd (onDroppableEdgeLeave e w)) = attributes w"
  "triggered (snd (onDroppableEdgeLeave e w)) = triggered w"
  by (simp_all add: onDroppableEdgeLeave_def clearInterval_def split: option.splits)

lemma runCallback_frame:
  "dragData (runCallback cb w) = dragData w" "timeouts (runCallback cb w) = timeouts w"
  "intervals (runCallback cb w) = intervals w" "scrollInterval (runCallback cb w) = scrollInterval w"
  "triggered (runCallback cb w) = triggered w"
  by (cases cb; simp add: runCallback_def setDraggingState_def clearDraggingState_def
      setAttribute_def removeAttribute_def)+

lemma step_IntervalFires_frame:
  "dragType (step (IntervalFires h) w) = dragType w"
  "dragData (step (IntervalFires h) w) = dragData w"
  "timeouts (step (IntervalFires h) w) = timeouts w"
  "attributes (step (IntervalFires h) w) = attributes w"
  "triggered (step (IntervalFires h) w) = triggered w"
  by (auto simp: scrollTick_frame split: option.splits sum.splits)

lemma step_TimeoutFires_store:
  "dragType (step TimeoutFires w) = dragType w" "dragData (step TimeoutFires w) = dragData w"
  by (simp_all add: runCallback_frame split: list.splits)



subsection \<open>The payload override\<close>



subsection \<open>The Global Dragging Indicator\<close>

lemma indicator_eqI:
  "timeouts w' = timeouts w \<Longrightarrow> attributes w' = attributes w \<Longrightarrow> dragType w' = dragType w \<Longrightarrow>
     indicator (flush w') = indicator (flush w)"
  unfolding indicator_flush by (simp add: indicator_def split: callback.splits)

lemma indicator_flush_TimeoutFires:
  "indicator (flush (step TimeoutFires w)) = indicator (flush w)"
proof (cases "timeouts w")
  case Nil
  then show ?thesis by simp
next
  case (Cons t ts)
  show ?thesis
  proof (cases ts rule: rev_cases)
    case Nil
    with Cons show ?thesis
      by (simp add: indicator_flush runCallback_frame indicator_runCallback
        split: callback.splits)
  next
    case (snoc ys y)
    with Cons show ?thesis
      by (simp add: indicator_flush runCallback_frame split: callback.splits)
  qed
qed

text \<open>An input that leaves the indicator to come and the store's type alone, and that
  is no \<^verbatim>\<open>dragstart\<close>, \<^verbatim>\<open>drop\<close> or \<^verbatim>\<open>dragend\<close>, keeps the two in step with the session.\<close>

lemma session_kept:
  assumes "indicator (flush w') = indicator (flush w)" and "dragType w' = dragType w"
    and "indicator (flush w) = s" and "\<forall>T. s = Some T \<longrightarrow> dragType w = Str T"
  shows "indicator (flush w') = s \<and> (\<forall>T. s = Some T \<longrightarrow> dragType w' = Str T)"
  using assms by simp

lemma session_step_invariant:
  assumes "indicator (flush w) = s" and "\<forall>T. s = Some T \<longrightarrow> dragType w = Str T"
  shows "indicator (flush (step i w)) = session_step i w s
       \<and> (\<forall>T. session_step i w s = Some T \<longrightarrow> dragType (step i w) = Str T)"
proof (cases i)
  case (DragStart e)
  let ?r = "resolved w (target e) ''data-draggable'' ''data-draggable-type''"
  show ?thesis
  proof (cases "?r = None \<or> ?r = Some []")
    case True
    then have "onDragStart e w = (e, w)" by (rule onDragStart_untyped)
    moreover from True have "session_step i w s = s"
      by (auto simp: session_step_def DragStart)
    ultimately show ?thesis using assms DragStart by simp
  next
    case False
    then obtain T where r: "?r = Some T" and T: "T \<noteq> []" by auto
    from r T have "session_step i w s = Some T" by (simp add: session_step_def DragStart)
    moreover have "dragType (step i w) = Str T"
      using onDragStart_typed(1) [OF r T] DragStart by simp
    moreover have "indicator (flush (step i w)) = Some T"
      using onDragStart_typed [OF r T] DragStart
      by (simp add: indicator_flush to_string_def)
    ultimately show ?thesis by simp
  qed
next
  case (DragEnd e)
  have "indicator (flush (step i w)) = None"
    using DragEnd by (simp add: indicator_flush onDragEnd_world)
  then show ?thesis using DragEnd by (simp add: session_step_def)
next
  case (Drop e)
  have "indicator (flush (step i w)) = None"
    using Drop by (simp add: indicator_flush onDragDrop_result)
  then show ?thesis using Drop by (simp add: session_step_def)
next
  case (DragEnter e)
  have "indicator (flush (snd (onDragEnter e w))) = indicator (flush w)"
    by (rule indicator_eqI) (rule onDragEnter_frame)+
  then show ?thesis
    using session_kept [OF _ _ assms, of "snd (onDragEnter e w)"] DragEnter
    by (simp add: session_step_def onDragEnter_frame)
next
  case (DragOver e)
  then have "step i w = w" by (simp add: onDragOver_def)
  then show ?thesis using assms DragOver by (simp add: session_step_def)
next
  case (DragLeave e)
  have "indicator (flush (snd (onDragLeave e w))) = indicator (flush w)"
    by (rule indicator_eqI) (rule onDragLeave_frame)+
  then show ?thesis
    using session_kept [OF _ _ assms, of "snd (onDragLeave e w)"] DragLeave
    by (simp add: session_step_def onDragLeave_frame)
next
  case (EdgeEnter e)
  have "indicator (flush (snd (onDroppableEdgeEnter e w))) = indicator (flush w)"
    by (rule indicator_eqI) (rule onDroppableEdgeEnter_frame)+
  then show ?thesis
    using session_kept [OF _ _ assms, of "snd (onDroppableEdgeEnter e w)"] EdgeEnter
    by (simp add: session_step_def onDroppableEdgeEnter_frame)
next
  case (EdgeLeave e)
  have "indicator (flush (snd (onDroppableEdgeLeave e w))) = indicator (flush w)"
    by (rule indicator_eqI) (rule onDroppableEdgeLeave_frame)+
  then show ?thesis
    using session_kept [OF _ _ assms, of "snd (onDroppableEdgeLeave e w)"] EdgeLeave
    by (simp add: session_step_def onDroppableEdgeLeave_frame)
next
  case (DataSet t d)
  have "indicator (flush (onDataSet t d w)) = indicator (flush w)"
    by (rule indicator_eqI) (simp_all add: onDataSet_def)
  moreover have "dragType (onDataSet t d w) = dragType w"
    by (simp add: onDataSet_def)
  ultimately show ?thesis
    using session_kept [OF _ _ assms, of "onDataSet t d w"] DataSet
    by (simp add: session_step_def)
next
  case TimeoutFires
  from session_kept [OF indicator_flush_TimeoutFires step_TimeoutFires_store(1) assms]
  show ?thesis unfolding TimeoutFires by (simp add: session_step_def)
next
  case (IntervalFires h)
  have "indicator (flush (step (IntervalFires h) w)) = indicator (flush w)"
    by (rule indicator_eqI) (rule step_IntervalFires_frame)+
  from session_kept [OF this step_IntervalFires_frame(1) assms]
  show ?thesis unfolding IntervalFires by (simp add: session_step_def)
qed

lemma session_run_invariant:
  assumes "indicator (flush w) = s" and "\<forall>T. s = Some T \<longrightarrow> dragType w = Str T"
  shows "indicator (flush (run ins w)) = session_after ins w s
       \<and> (\<forall>T. session_after ins w s = Some T \<longrightarrow> dragType (run ins w) = Str T)"
  using assms
proof (induction ins arbitrary: w s)
  case Nil
  then show ?case by (simp add: run_def)
next
  case (Cons i ins)
  from session_step_invariant [OF Cons.prems, of i]
  have "indicator (flush (run ins (step i w))) = session_after ins (step i w) (session_step i w s)
      \<and> (\<forall>T. session_after ins (step i w) (session_step i w s) = Some T
            \<longrightarrow> dragType (run ins (step i w)) = Str T)"
    by (intro Cons.IH) simp_all
  then show ?case by (simp add: run_def)
qed

text \<open>
  Claim C4. Start from a world in which the closure has just been created, and let any
  inputs arrive in any order, timeouts running in between or not. Once the timeouts still
  pending have run, the dragging attribute (the source puts it on \<^verbatim>\<open>document.body\<close>) is
  present exactly when a session exists, and its value is then the session's type, which
  is also the type the store holds. The session is the specification's: opened by a
  \<^verbatim>\<open>dragstart\<close> on an element with a type, ended by \<^verbatim>\<open>drop\<close> and by \<^verbatim>\<open>dragend\<close>.
\<close>

theorem indicator_follows_session:
  assumes "initial w"
  shows "indicator (flush (run ins w)) = session_after ins w None
       \<and> (\<forall>T. session_after ins w None = Some T \<longrightarrow> dragType (run ins w) = Str T)"
proof -
  from assms have "timeouts w = []" "indicator w = None"
    by (simp_all add: initial_def indicator_def)
  then have "indicator (flush w) = None"
    by (simp add: indicator_flush)
  then show ?thesis by (intro session_run_invariant) simp_all
qed

text \<open>In the scenario: while \<open>A\<close> hovers over \<open>B\<close> the indicator is \<^verbatim>\<open>card\<close>; after the drop
  and the \<^verbatim>\<open>dragend\<close> it is absent.\<close>

theorem indicator_follows_session_witness:
  "initial scenario
   \<and> session_after [DragStart (native_event 2), DragEnter (native_event 3)] scenario None
       = Some ''card''
   \<and> indicator (flush (run [DragStart (native_event 2), DragEnter (native_event 3)] scenario))
       = Some ''card''
   \<and> dragType (run [DragStart (native_event 2), DragEnter (native_event 3)] scenario) = Str ''card''
   \<and> indicator (flush (run [DragStart (native_event 2), DragEnter (native_event 3),
         Drop (native_event 3), TimeoutFires, DragEnd (native_event 2)] scenario)) = None"
proof -
  let ?hover = "[DragStart (native_event 2), DragEnter (native_event 3)]"
  let ?whole = "[DragStart (native_event 2), DragEnter (native_event 3),
         Drop (native_event 3), TimeoutFires, DragEnd (native_event 2)]"
  have a: "session_after ?hover scenario None = Some ''card''"
    by (simp add: session_step_def scenario_resolved native_event_simps del: step.simps)
  have b: "session_after ?whole scenario None = None"
    by (simp add: session_step_def del: step.simps)
  note hover = indicator_follows_session [OF initial_scenario, of ?hover]
  note whole = indicator_follows_session [OF initial_scenario, of ?whole]
  from hover a have 1: "indicator (flush (run ?hover scenario)) = Some ''card''"
    and 2: "dragType (run ?hover scenario) = Str ''card''" by simp_all
  from whole b have 3: "indicator (flush (run ?whole scenario)) = None" by simp
  from initial_scenario a 1 2 3 show ?thesis by blast
qed

subsection \<open>The edge sentinels and the scroll timer\<close>

lemma onDragStart_frame:
  "intervals (snd (onDragStart e w)) = intervals w"
  "scrollInterval (snd (onDragStart e w)) = scrollInterval w"
  "scrollContainer (snd (onDragStart e w)) = scrollContainer w"
  by (simp_all add: onDragStart_def Let_def setTimeout_def trigger_def classList_add_def)

lemma truthy_getAttribute:
  "truthy (getAttribute w el a) = (\<exists>s. attributes w el a = Some s \<and> s \<noteq> [])"
  by (simp add: truthy_def getAttribute_def split: option.splits)

lemma onDroppableEdgeEnter_undeclared:
  assumes "attributes w (currentTarget e) ''data-droppable-edge-container'' = None \<or>
           attributes w (currentTarget e) ''data-droppable-edge-container'' = Some []"
  shows "onDroppableEdgeEnter e w = (e, w)"
proof -
  from assms have "\<not> truthy (getAttribute w (currentTarget e) ''data-droppable-edge-container'')"
    by (auto simp: truthy_getAttribute)
  then show ?thesis by (simp add: onDroppableEdgeEnter_def Let_def)
qed

lemma onDroppableEdgeEnter_unresolved:
  assumes "attributes w (currentTarget e) ''data-droppable-edge-container'' = Some sel"
    and "sel \<noteq> []" and "jQuery w sel = []"
  shows "onDroppableEdgeEnter e w = (e, w\<lparr>scrollContainer := JQ []\<rparr>)"
proof -
  from assms have "getAttribute w (currentTarget e) ''data-droppable-edge-container'' = Str sel"
    by (simp add: getAttribute_def)
  with assms show ?thesis
    by (simp add: onDroppableEdgeEnter_def Let_def truthy_def to_string_def)
qed

lemma onDroppableEdgeEnter_resolved:
  assumes "attributes w (currentTarget e) ''data-droppable-edge-container'' = Some sel"
    and "sel \<noteq> []" and "jQuery w sel \<noteq> []"
  shows "onDroppableEdgeEnter e w =
    (e, w\<lparr>scrollContainer := JQ (jQuery w sel),
          intervals := filter (\<lambda>t. Some (fst t) \<noteq> scrollInterval w) (intervals w) @
            [(nextTimer w, SCROLL_INTERVAL,
              if attributes w (currentTarget e) ''data-droppable-edge'' = Some ''top''
              then - 40 else 40)],
          nextTimer := Suc (nextTimer w),
          scrollInterval := Some (nextTimer w)\<rparr>)"
proof -
  from assms have s: "getAttribute w (currentTarget e) ''data-droppable-edge-container'' = Str sel"
    by (simp add: getAttribute_def)
  have p: "(getAttribute (w\<lparr>scrollContainer := JQ (jQuery w sel)\<rparr>) (currentTarget e)
              ''data-droppable-edge'' = Str ''top'') =
           (attributes w (currentTarget e) ''data-droppable-edge'' = Some ''top'')"
    by (simp add: getAttribute_def split: option.splits)
  show ?thesis
  proof (cases "scrollInterval w")
    case None
    with assms s p show ?thesis
      by (simp add: onDroppableEdgeEnter_def Let_def truthy_def to_string_def
          clearInterval_def setInterval_def)
  next
    case (Some h)
    have "(\<lambda>t. fst t \<noteq> h) = (\<lambda>t::nat \<times> nat \<times> int. Some (fst t) \<noteq> Some h)" by auto
    with Some assms s p show ?thesis
      by (simp add: onDroppableEdgeEnter_def Let_def truthy_def to_string_def
          clearInterval_def setInterval_def)
  qed
qed

lemma one_timer_filter:
  "one_timer w \<Longrightarrow> filter (\<lambda>t. Some (fst t) \<noteq> scrollInterval w) (intervals w) = []"
  by (auto simp: one_timer_def split: list.splits)

lemma one_timerI:
  "intervals w' = intervals w \<Longrightarrow> scrollInterval w' = scrollInterval w \<Longrightarrow> one_timer w
     \<Longrightarrow> one_timer w'"
  by (simp add: one_timer_def split: list.splits)

lemma onDroppableEdgeLeave_world:
  "snd (onDroppableEdgeLeave e w) =
     w\<lparr>intervals := filter (\<lambda>t. Some (fst t) \<noteq> scrollInterval w) (intervals w),
       scrollContainer := JQ_null\<rparr>"
proof (cases "scrollInterval w")
  case None
  then show ?thesis by (simp add: onDroppableEdgeLeave_def clearInterval_def)
next
  case (Some h)
  have "(\<lambda>t. fst t \<noteq> h) = (\<lambda>t::nat \<times> nat \<times> int. Some (fst t) \<noteq> Some h)" by auto
  with Some show ?thesis by (simp add: onDroppableEdgeLeave_def clearInterval_def)
qed

lemma one_timer_EdgeEnter:
  assumes "one_timer w"
  shows "one_timer (snd (onDroppableEdgeEnter e w))"
proof -
  let ?a = "attributes w (currentTarget e) ''data-droppable-edge-container''"
  consider "?a = None \<or> ?a = Some []"
    | sel where "?a = Some sel" "sel \<noteq> []" "jQuery w sel = []"
    | sel where "?a = Some sel" "sel \<noteq> []" "jQuery w sel \<noteq> []"
    by (cases ?a) auto
  then show ?thesis
  proof cases
    case 1
    then show ?thesis using assms by (simp add: onDroppableEdgeEnter_undeclared)
  next
    case 2
    then show ?thesis using assms
      by (simp add: onDroppableEdgeEnter_unresolved one_timer_def split: list.splits)
  next
    case 3
    then show ?thesis using one_timer_filter [OF assms]
      by (simp add: onDroppableEdgeEnter_resolved one_timer_def)
  qed
qed

lemma one_timer_step:
  assumes "one_timer w"
  shows "one_timer (step i w)"
proof (cases i)
  case (DragStart e)
  then show ?thesis using assms by (simp add: one_timerI [OF onDragStart_frame(1,2)])
next
  case (DragEnd e)
  then show ?thesis using assms by (simp add: onDragEnd_world one_timer_def split: list.splits)
next
  case (DragEnter e)
  then show ?thesis using assms by (simp add: one_timerI [OF onDragEnter_frame(5,6)])
next
  case (DragOver e)
  then show ?thesis using assms by (simp add: onDragOver_def)
next
  case (DragLeave e)
  then show ?thesis using assms by (simp add: one_timerI [OF onDragLeave_frame(5,6)])
next
  case (Drop e)
  then show ?thesis using assms by (simp add: onDragDrop_result one_timer_def split: list.splits)
next
  case (EdgeEnter e)
  then show ?thesis using assms by (simp add: one_timer_EdgeEnter)
next
  case (EdgeLeave e)
  then show ?thesis using one_timer_filter [OF assms]
    by (simp add: onDroppableEdgeLeave_world one_timer_def)
next
  case (DataSet t d)
  then show ?thesis using assms by (simp add: onDataSet_def one_timer_def split: list.splits)
next
  case TimeoutFires
  show ?thesis unfolding TimeoutFires
    by (rule one_timerI [OF _ _ assms])
      (simp_all add: runCallback_frame split: list.splits)
next
  case (IntervalFires h)
  show ?thesis unfolding IntervalFires
    by (rule one_timerI [OF _ _ assms])
      (auto simp: scrollTick_frame split: option.splits sum.splits)
qed

lemma one_timer_run: "one_timer w \<Longrightarrow> one_timer (run ins w)"
proof (induction ins arbitrary: w)
  case Nil
  then show ?case by (simp add: run_def)
next
  case (Cons i ins)
  from Cons.prems have "one_timer (step i w)" by (rule one_timer_step)
  then have "one_timer (run ins (step i w))" by (rule Cons.IH)
  then show ?case by (simp add: run_def)
qed

lemma one_timer_reachable: "initial w0 \<Longrightarrow> one_timer (run ins w0)"
  by (rule one_timer_run) (simp add: initial_def one_timer_def)

lemma one_timer_length: "one_timer w \<Longrightarrow> length (intervals w) \<le> 1"
  by (auto simp: one_timer_def split: list.splits)

text \<open>One tick of the timer with handle \<open>h\<close>, while the closure holds a non-empty set.\<close>

lemma tick_once:
  assumes "scrollContainer w = JQ cs" and "cs \<noteq> []" and "map_of (intervals w) h = Some (p, d)"
  shows "scrollContainer (step (IntervalFires h) w) = JQ cs"
    and "intervals (step (IntervalFires h) w) = intervals w"
    and "scrollTop (step (IntervalFires h) w) (hd cs) = scrollTop w (hd cs) + d"
    and "\<forall>c \<in> set cs. scrollTop (step (IntervalFires h) w) c = scrollTop w (hd cs) + d"
    and "\<forall>c. c \<notin> set cs \<longrightarrow> scrollTop (step (IntervalFires h) w) c = scrollTop w c"
  using assms by (auto simp: scrollTick_def Let_def split: list.splits)

lemma tick_many:
  assumes "scrollContainer w = JQ cs" and "cs \<noteq> []" and "map_of (intervals w) h = Some (p, d)"
  shows "scrollContainer ((step (IntervalFires h) ^^ n) w) = JQ cs
       \<and> intervals ((step (IntervalFires h) ^^ n) w) = intervals w
       \<and> scrollTop ((step (IntervalFires h) ^^ n) w) (hd cs) = scrollTop w (hd cs) + int n * d"
proof (induction n)
  case 0
  show ?case using assms(1) by simp
next
  case (Suc n)
  let ?w = "(step (IntervalFires h) ^^ n) w"
  from Suc assms have a: "scrollContainer ?w = JQ cs" "map_of (intervals ?w) h = Some (p, d)"
    by (simp_all del: step.simps)
  from tick_once(1-3) [OF a(1) assms(2) a(2)] Suc
  show ?case by (simp add: algebra_simps del: step.simps)
qed

text \<open>
  Claim C6. Let \<open>w\<close> be any world the plugin can reach from a fresh closure. At most one
  interval timer runs in \<open>w\<close>. When a sentinel is entered whose container attribute is a
  non-empty selector that resolves, the timers running afterwards are exactly one new
  timer with the period \<open>SCROLL_INTERVAL\<close> (any earlier timer is gone), the closure holds
  its handle and the resolved container, and after \<open>n\<close> ticks of that timer the container's
  scroll offset has changed by \<open>n\<close> times \<open>- 40\<close> when the sentinel's position is \<^verbatim>\<open>top\<close> and
  by \<open>n\<close> times \<open>40\<close> otherwise. When the selector resolves to nothing, the timers and the
  handle are as before: no timer is started. A \<^verbatim>\<open>dragleave\<close> on a sentinel leaves no timer
  running and sets the remembered container to \<^verbatim>\<open>null\<close>.
\<close>

theorem edge_scroll_single_timer:
  assumes "initial w0" and "w = run ins w0"
  shows "length (intervals w) \<le> 1
     \<and> (\<forall>sel. attributes w (currentTarget e) ''data-droppable-edge-container'' = Some sel
            \<and> sel \<noteq> [] \<and> jQuery w sel \<noteq> [] \<longrightarrow>
          intervals (snd (onDroppableEdgeEnter e w)) =
            [(nextTimer w, SCROLL_INTERVAL,
              if attributes w (currentTarget e) ''data-droppable-edge'' = Some ''top''
              then - 40 else 40)]
        \<and> scrollInterval (snd (onDroppableEdgeEnter e w)) = Some (nextTimer w)
        \<and> scrollContainer (snd (onDroppableEdgeEnter e w)) = JQ (jQuery w sel)
        \<and> (\<forall>n. scrollTop ((step (IntervalFires (nextTimer w)) ^^ n)
                            (snd (onDroppableEdgeEnter e w))) (hd (jQuery w sel)) =
                 scrollTop w (hd (jQuery w sel)) +
                 int n * (if attributes w (currentTarget e) ''data-droppable-edge'' = Some ''top''
                          then - 40 else 40)))
     \<and> (\<forall>sel. attributes w (currentTarget e) ''data-droppable-edge-container'' = Some sel
            \<and> sel \<noteq> [] \<and> jQuery w sel = [] \<longrightarrow>
          intervals (snd (onDroppableEdgeEnter e w)) = intervals w
        \<and> scrollInterval (snd (onDroppableEdgeEnter e w)) = scrollInterval w)
     \<and> intervals (snd (onDroppableEdgeLeave e w)) = []
     \<and> scrollContainer (snd (onDroppableEdgeLeave e w)) = JQ_null"
proof -
  from assms have one: "one_timer w" by (simp add: one_timer_reachable)
  note gone = one_timer_filter [OF one]
  have 1: "length (intervals w) \<le> 1" using one by (rule one_timer_length)
  have 2: "intervals (snd (onDroppableEdgeEnter e w)) =
            [(nextTimer w, SCROLL_INTERVAL,
              if attributes w (currentTarget e) ''data-droppable-edge'' = Some ''top''
              then - 40 else 40)]
        \<and> scrollInterval (snd (onDroppableEdgeEnter e w)) = Some (nextTimer w)
        \<and> scrollContainer (snd (onDroppableEdgeEnter e w)) = JQ (jQuery w sel)
        \<and> (\<forall>n. scrollTop ((step (IntervalFires (nextTimer w)) ^^ n)
                            (snd (onDroppableEdgeEnter e w))) (hd (jQuery w sel)) =
                 scrollTop w (hd (jQuery w sel)) +
                 int n * (if attributes w (currentTarget e) ''data-droppable-edge'' = Some ''top''
                          then - 40 else 40))"
    if a: "attributes w (currentTarget e) ''data-droppable-edge-container'' = Some sel
            \<and> sel \<noteq> [] \<and> jQuery w sel \<noteq> []" for sel
  proof -
    let ?d = "if attributes w (currentTarget e) ''data-droppable-edge'' = Some ''top''
              then - 40 else 40 :: int"
    let ?w = "snd (onDroppableEdgeEnter e w)"
    from a have r: "attributes w (currentTarget e) ''data-droppable-edge-container'' = Some sel"
      "sel \<noteq> []" "jQuery w sel \<noteq> []" by simp_all
    have i: "intervals ?w = [(nextTimer w, SCROLL_INTERVAL, ?d)]"
      and h: "scrollInterval ?w = Some (nextTimer w)"
      and c: "scrollContainer ?w = JQ (jQuery w sel)"
      and t: "scrollTop ?w = scrollTop w"
      using gone by (simp_all add: onDroppableEdgeEnter_resolved [OF r])
    from i have m: "map_of (intervals ?w) (nextTimer w) = Some (SCROLL_INTERVAL, ?d)" by simp
    from tick_many [OF c r(3) m] t
    have "\<forall>n. scrollTop ((step (IntervalFires (nextTimer w)) ^^ n) ?w) (hd (jQuery w sel)) =
              scrollTop w (hd (jQuery w sel)) + int n * ?d" by simp
    with i h c show ?thesis by blast
  qed
  have 3: "intervals (snd (onDroppableEdgeEnter e w)) = intervals w
        \<and> scrollInterval (snd (onDroppableEdgeEnter e w)) = scrollInterval w"
    if a: "attributes w (currentTarget e) ''data-droppable-edge-container'' = Some sel
            \<and> sel \<noteq> [] \<and> jQuery w sel = []" for sel
  proof -
    from a have r: "attributes w (currentTarget e) ''data-droppable-edge-container'' = Some sel"
      "sel \<noteq> []" "jQuery w sel = []" by simp_all
    show ?thesis by (simp add: onDroppableEdgeEnter_unresolved [OF r])
  qed
  have 4: "intervals (snd (onDroppableEdgeLeave e w)) = []
     \<and> scrollContainer (snd (onDroppableEdgeLeave e w)) = JQ_null"
    using gone by (simp add: onDroppableEdgeLeave_world)
  from 1 2 3 4 show ?thesis by blast
qed

lemma scenario_edges:
  "attributes scenario 6 ''data-droppable-edge-container'' = Some ''#list''"
  "attributes scenario 6 ''data-droppable-edge'' = Some ''top''"
  "attributes scenario 7 ''data-droppable-edge-container'' = None"
  "attributes scenario 9 ''data-droppable-edge-container'' = Some ''#none''"
  "attributes scenario 10 ''data-droppable-edge-container'' = Some ''#list''"
  "attributes scenario 10 ''data-droppable-edge'' = Some ''bottom''"
  "jQuery scenario ''#list'' = [Element 8]"
  "jQuery scenario ''#none'' = []"
  by (simp_all add: scenario_simps scenario_attributes_def jQuery_def)

text \<open>The scenario after the pointer has entered the top sentinel 6.\<close>

lemma scenario_over_top:
  "run [EdgeEnter (native_event 6)] scenario =
     scenario\<lparr>scrollContainer := JQ [Element 8], intervals := [(1, 50, - 40)],
              nextTimer := 2, scrollInterval := Some 1\<rparr>"
proof -
  have "attributes scenario (currentTarget (native_event 6)) ''data-droppable-edge-container''
          = Some ''#list''"
    and "''#list'' \<noteq> []" and "jQuery scenario ''#list'' \<noteq> []"
    and "attributes scenario (currentTarget (native_event 6)) ''data-droppable-edge'' = Some ''top''"
    by (simp_all add: native_event_simps scenario_edges)
  from onDroppableEdgeEnter_resolved [OF this(1-3)] this(4) show ?thesis
    by (simp add: run_def scenario_edges(7) scenario_simps(5,10,11) SCROLL_INTERVAL_def)
qed

text \<open>In the scenario, with the pointer over the top sentinel 6: entering the bottom
  sentinel 10 replaces the timer, three ticks move the container from 100 to 220;
  entering sentinel 9, whose container does not exist, starts nothing; leaving stops the
  timer.\<close>

theorem edge_scroll_single_timer_witness:
  "initial scenario
   \<and> scenario\<lparr>scrollContainer := JQ [Element 8], intervals := [(1, 50, - 40)],
               nextTimer := 2, scrollInterval := Some 1\<rparr> = run [EdgeEnter (native_event 6)] scenario
   \<and> intervals (snd (onDroppableEdgeEnter (native_event 10)
         (scenario\<lparr>scrollContainer := JQ [Element 8], intervals := [(1, 50, - 40)],
                   nextTimer := 2, scrollInterval := Some 1\<rparr>))) = [(2, 50, 40)]
   \<and> scrollTop ((step (IntervalFires 2) ^^ 3) (snd (onDroppableEdgeEnter (native_event 10)
         (scenario\<lparr>scrollContainer := JQ [Element 8], intervals := [(1, 50, - 40)],
                   nextTimer := 2, scrollInterval := Some 1\<rparr>)))) (Element 8) = 220
   \<and> intervals (snd (onDroppableEdgeEnter (native_event 9)
         (scenario\<lparr>scrollContainer := JQ [Element 8], intervals := [(1, 50, - 40)],
                   nextTimer := 2, scrollInterval := Some 1\<rparr>))) = [(1, 50, - 40)]
   \<and> intervals (snd (onDroppableEdgeLeave (native_event 6)
         (scenario\<lparr>scrollContainer := JQ [Element 8], intervals := [(1, 50, - 40)],
                   nextTimer := 2, scrollInterval := Some 1\<rparr>))) = []"
proof -
  let ?w = "scenario\<lparr>scrollContainer := JQ [Element 8], intervals := [(1, 50, - 40)],
                     nextTimer := 2, scrollInterval := Some 1\<rparr>"
  have w: "?w = run [EdgeEnter (native_event 6)] scenario"
    by (simp only: scenario_over_top)
  have b: "attributes ?w (currentTarget (native_event 10)) ''data-droppable-edge-container''
            = Some ''#list'' \<and> ''#list'' \<noteq> [] \<and> jQuery ?w ''#list'' \<noteq> []"
    and b': "attributes ?w (currentTarget (native_event 10)) ''data-droppable-edge''
            \<noteq> Some ''top''"
    and n: "attributes ?w (currentTarget (native_event 9)) ''data-droppable-edge-container''
            = Some ''#none'' \<and> ''#none'' \<noteq> [] \<and> jQuery ?w ''#none'' = []"
    and l: "jQuery ?w ''#list'' = [Element 8]"
    by (simp_all add: native_event_simps scenario_simps scenario_attributes_def jQuery_def)
  note bottom = edge_scroll_single_timer [OF initial_scenario w, of "native_event 10",
      THEN conjunct2, THEN conjunct1, rule_format, OF b]
  note missing = edge_scroll_single_timer [OF initial_scenario w, of "native_event 9",
      THEN conjunct2, THEN conjunct2, THEN conjunct1, rule_format, OF n]
  note leave = edge_scroll_single_timer [OF initial_scenario w, of "native_event 6",
      THEN conjunct2, THEN conjunct2, THEN conjunct2, THEN conjunct1]
  have 1: "intervals (snd (onDroppableEdgeEnter (native_event 10) ?w)) = [(2, 50, 40)]"
    using bottom [THEN conjunct1] b' by (simp add: SCROLL_INTERVAL_def)
  have 2: "scrollTop ((step (IntervalFires 2) ^^ 3) (snd (onDroppableEdgeEnter (native_event 10) ?w)))
             (Element 8) = 220"
    using bottom [THEN conjunct2, THEN conjunct2, THEN conjunct2, rule_format, of 3] b' l
    by (simp add: scenario_simps del: step.simps funpow.simps)
  have 3: "intervals (snd (onDroppableEdgeEnter (native_event 9) ?w)) = [(1, 50, - 40)]"
    using missing [THEN conjunct1] by simp
  from initial_scenario w 1 2 3 leave show ?thesis by blast
qed

lemma onDroppableEdgeEnter_attributes_frame:
  assumes "a (currentTarget e) = attributes w (currentTarget e)"
  shows "onDroppableEdgeEnter e (w\<lparr>attributes := a\<rparr>) =
           (e, (snd (onDroppableEdgeEnter e w))\<lparr>attributes := a\<rparr>)"
  using assms
  by (cases "scrollInterval w")
    (simp_all add: onDroppableEdgeEnter_def Let_def getAttribute_def jQuery_def
      clearInterval_def setInterval_def)

text \<open>
  Claim C10. A \<^verbatim>\<open>dragenter\<close> on a sentinel whose own \<^verbatim>\<open>data-droppable-edge-container\<close>
  attribute is absent or empty returns the event and the world as they were: no timer is
  started, and if none was running no tick changes anything afterwards. The attribute is
  read from the entered sentinel only: changing the attributes of every other element
  (those of a sibling top sentinel included) changes nothing in what the handler does.
\<close>

theorem edge_container_read_from_sentinel_only:
  "(attributes w (currentTarget e) ''data-droppable-edge-container'' = None \<or>
    attributes w (currentTarget e) ''data-droppable-edge-container'' = Some [] \<longrightarrow>
      onDroppableEdgeEnter e w = (e, w)
      \<and> (intervals w = [] \<longrightarrow>
           (\<forall>h. step (IntervalFires h) (snd (onDroppableEdgeEnter e w)) =
                snd (onDroppableEdgeEnter e w))))
   \<and> (a (currentTarget e) = attributes w (currentTarget e) \<longrightarrow>
        onDroppableEdgeEnter e (w\<lparr>attributes := a\<rparr>) =
          (e, (snd (onDroppableEdgeEnter e w))\<lparr>attributes := a\<rparr>))"
proof (intro conjI impI allI)
  assume u: "attributes w (currentTarget e) ''data-droppable-edge-container'' = None \<or>
    attributes w (currentTarget e) ''data-droppable-edge-container'' = Some []"
  then show s: "onDroppableEdgeEnter e w = (e, w)" by (rule onDroppableEdgeEnter_undeclared)
  fix h
  assume "intervals w = []"
  then show "step (IntervalFires h) (snd (onDroppableEdgeEnter e w)) =
                snd (onDroppableEdgeEnter e w)"
    by (simp add: s)
next
  assume "a (currentTarget e) = attributes w (currentTarget e)"
  then show "onDroppableEdgeEnter e (w\<lparr>attributes := a\<rparr>) =
          (e, (snd (onDroppableEdgeEnter e w))\<lparr>attributes := a\<rparr>)"
    by (rule onDroppableEdgeEnter_attributes_frame)
qed

text \<open>In the scenario: the bottom sentinel 7, written as the header comment of the source
  shows it, does nothing, with or without the top sentinel 6 in the document.\<close>

theorem edge_container_read_from_sentinel_only_witness:
  "attributes scenario (currentTarget (native_event 7)) ''data-droppable-edge-container'' = None
   \<and> onDroppableEdgeEnter (native_event 7) scenario = (native_event 7, scenario)
   \<and> intervals scenario = []
   \<and> step (IntervalFires 1) (snd (onDroppableEdgeEnter (native_event 7) scenario)) =
        snd (onDroppableEdgeEnter (native_event 7) scenario)
   \<and> ((attributes scenario)(6 := Map.empty)) (currentTarget (native_event 7)) =
        attributes scenario (currentTarget (native_event 7))
   \<and> onDroppableEdgeEnter (native_event 7) (scenario\<lparr>attributes := (attributes scenario)(6 := Map.empty)\<rparr>)
       = (native_event 7, scenario\<lparr>attributes := (attributes scenario)(6 := Map.empty)\<rparr>)"
proof -
  have u: "attributes scenario (currentTarget (native_event 7)) ''data-droppable-edge-container''
        = None"
    by (simp add: native_event_simps scenario_edges)
  have f: "((attributes scenario)(6 := Map.empty)) (currentTarget (native_event 7)) =
        attributes scenario (currentTarget (native_event 7))"
    by (simp add: native_event_simps)
  note t = edge_container_read_from_sentinel_only
    [of scenario "native_event 7" "(attributes scenario)(6 := Map.empty)"]
  from t u have 1: "onDroppableEdgeEnter (native_event 7) scenario = (native_event 7, scenario)"
    by blast
  from t u scenario_simps(10)
  have 2: "step (IntervalFires 1) (snd (onDroppableEdgeEnter (native_event 7) scenario)) =
        snd (onDroppableEdgeEnter (native_event 7) scenario)"
    by blast
  from t f have "onDroppableEdgeEnter (native_event 7)
       (scenario\<lparr>attributes := (attributes scenario)(6 := Map.empty)\<rparr>)
       = (native_event 7, (snd (onDroppableEdgeEnter (native_event 7) scenario))
            \<lparr>attributes := (attributes scenario)(6 := Map.empty)\<rparr>)"
    by blast
  with 1 have 3: "onDroppableEdgeEnter (native_event 7)
       (scenario\<lparr>attributes := (attributes scenario)(6 := Map.empty)\<rparr>)
       = (native_event 7, scenario\<lparr>attributes := (attributes scenario)(6 := Map.empty)\<rparr>)"
    by simp
  from u 1 scenario_simps(10) 2 f 3 show ?thesis by blast
qed

subsection \<open>Enabling and destroying\<close>

lemma drag_enable_enabled:
  "jq_data p el DEFAULT_DRAG_NAMESPACE = Some True \<Longrightarrow> opts \<noteq> Destroy \<Longrightarrow>
     html5Draggable_each opts el p = p"
  by (simp add: html5Draggable_each_def)

lemma drag_destroy_disabled:
  "jq_data p el DEFAULT_DRAG_NAMESPACE \<noteq> Some True \<Longrightarrow> html5Draggable_each Destroy el p = p"
  by (simp add: html5Draggable_each_def)

lemma drag_enable_disabled:
  assumes "jq_data p el DEFAULT_DRAG_NAMESPACE \<noteq> Some True" and "opts \<noteq> Destroy"
  shows "html5Draggable_each opts el p =
    p\<lparr>listeners := (listeners p)(el := listeners p el @
         [\<lparr>on_type = ''dragstart'', on_namespace = DEFAULT_DRAG_NAMESPACE,
           on_selector = (case opts of Options s \<Rightarrow> s | _ \<Rightarrow> Str DRAGGABLE_SELECTOR),
           on_handler = OnDragStart\<rparr>,
          \<lparr>on_type = ''dragend'', on_namespace = DEFAULT_DRAG_NAMESPACE,
           on_selector = (case opts of Options s \<Rightarrow> s | _ \<Rightarrow> Str DRAGGABLE_SELECTOR),
           on_handler = OnDragEnd\<rparr>]),
      jq_data := (jq_data p)(el := (jq_data p el)(DEFAULT_DRAG_NAMESPACE \<mapsto> True))\<rparr>"
  using assms
  by (simp add: html5Draggable_each_def initializeDraggable_def jq_on_def jq_data_set_def Let_def)

lemma drag_destroy_enabled:
  assumes "jq_data p el DEFAULT_DRAG_NAMESPACE = Some True"
  shows "html5Draggable_each Destroy el p =
    p\<lparr>listeners := (listeners p)(el :=
         filter (\<lambda>l. on_namespace l \<noteq> DEFAULT_DRAG_NAMESPACE) (listeners p el)),
      jq_data := (jq_data p)(el := (jq_data p el)(DEFAULT_DRAG_NAMESPACE \<mapsto> False))\<rparr>"
  using assms
  by (simp add: html5Draggable_each_def destroy_def jq_off_def jq_data_set_def)

lemma drop_enable_enabled:
  "jq_data p el DEFAULT_DROP_NAMESPACE = Some True \<Longrightarrow> opts \<noteq> Destroy \<Longrightarrow>
     html5Droppable_each opts el p = p"
  by (simp add: html5Droppable_each_def)

lemma drop_destroy_disabled:
  "jq_data p el DEFAULT_DROP_NAMESPACE \<noteq> Some True \<Longrightarrow> html5Droppable_each Destroy el p = p"
  by (simp add: html5Droppable_each_def)

lemma drop_enable_disabled:
  assumes "jq_data p el DEFAULT_DROP_NAMESPACE \<noteq> Some True" and "opts \<noteq> Destroy"
  shows "html5Droppable_each opts el p =
    p\<lparr>listeners := (listeners p)(el := listeners p el @
         [\<lparr>on_type = ''dragenter'', on_namespace = DEFAULT_DROP_NAMESPACE,
           on_selector = (case opts of Options s \<Rightarrow> s | _ \<Rightarrow> Str DROPPABLE_SELECTOR),
           on_handler = OnDragEnter\<rparr>,
          \<lparr>on_type = ''dragover'', on_namespace = DEFAULT_DROP_NAMESPACE,
           on_selector = (case opts of Options s \<Rightarrow> s | _ \<Rightarrow> Str DROPPABLE_SELECTOR),
           on_handler = OnDragOver\<rparr>,
          \<lparr>on_type = ''dragleave'', on_namespace = DEFAULT_DROP_NAMESPACE,
           on_selector = (case opts of Options s \<Rightarrow> s | _ \<Rightarrow> Str DROPPABLE_SELECTOR),
           on_handler = OnDragLeave\<rparr>,
          \<lparr>on_type = ''drop'', on_namespace = DEFAULT_DROP_NAMESPACE,
           on_selector = (case opts of Options s \<Rightarrow> s | _ \<Rightarrow> Str DROPPABLE_SELECTOR),
           on_handler = OnDragDrop\<rparr>]),
      jq_data := (jq_data p)(el := (jq_data p el)(DEFAULT_DROP_NAMESPACE \<mapsto> True))\<rparr>"
  using assms
  by (simp add: html5Droppable_each_def initializeDroppable_def jq_on_def jq_data_set_def Let_def)

lemma drop_destroy_enabled:
  assumes "jq_data p el DEFAULT_DROP_NAMESPACE = Some True"
  shows "html5Droppable_each Destroy el p =
    p\<lparr>listeners := (listeners p)(el :=
         filter (\<lambda>l. on_namespace l \<noteq> DEFAULT_DROP_NAMESPACE) (listeners p el)),
      jq_data := (jq_data p)(el := (jq_data p el)(DEFAULT_DROP_NAMESPACE \<mapsto> False))\<rparr>"
  using assms
  by (simp add: html5Droppable_each_def destroy_def jq_off_def jq_data_set_def)

lemma namespaces_differ: "DEFAULT_DRAG_NAMESPACE \<noteq> DEFAULT_DROP_NAMESPACE"
  by (simp add: DEFAULT_DRAG_NAMESPACE_def DEFAULT_DROP_NAMESPACE_def)

text \<open>The plugin call on a jQuery set in which every element is already enabled, or none is.\<close>

lemma html5Draggable_all_enabled:
  "list_all (\<lambda>el. jq_data p el DEFAULT_DRAG_NAMESPACE = Some True) els \<Longrightarrow> opts \<noteq> Destroy \<Longrightarrow>
     html5Draggable opts els p = p"
  by (induction els) (simp_all add: html5Draggable_def drag_enable_enabled)

lemma html5Draggable_none_enabled:
  "list_all (\<lambda>el. jq_data p el DEFAULT_DRAG_NAMESPACE \<noteq> Some True) els \<Longrightarrow>
     html5Draggable Destroy els p = p"
  by (induction els) (simp_all add: html5Draggable_def drag_destroy_disabled)

lemma html5Droppable_all_enabled:
  "list_all (\<lambda>el. jq_data p el DEFAULT_DROP_NAMESPACE = Some True) els \<Longrightarrow> opts \<noteq> Destroy \<Longrightarrow>
     html5Droppable opts els p = p"
  by (induction els) (simp_all add: html5Droppable_def drop_enable_enabled)

lemma html5Droppable_none_enabled:
  "list_all (\<lambda>el. jq_data p el DEFAULT_DROP_NAMESPACE \<noteq> Some True) els \<Longrightarrow>
     html5Droppable Destroy els p = p"
  by (induction els) (simp_all add: html5Droppable_def drop_destroy_disabled)

lemma drag_enable_then_destroy:
  assumes "jq_data p el DEFAULT_DRAG_NAMESPACE \<noteq> Some True" and "opts \<noteq> Destroy"
  shows "html5Draggable_each Destroy el (html5Draggable_each opts el p) =
    p\<lparr>listeners := (listeners p)(el :=
         filter (\<lambda>l. on_namespace l \<noteq> DEFAULT_DRAG_NAMESPACE) (listeners p el)),
      jq_data := (jq_data p)(el := (jq_data p el)(DEFAULT_DRAG_NAMESPACE \<mapsto> False))\<rparr>"
proof -
  have "jq_data (html5Draggable_each opts el p) el DEFAULT_DRAG_NAMESPACE = Some True"
    by (simp add: drag_enable_disabled [OF assms])
  from drag_destroy_enabled [OF this] show ?thesis
    by (simp add: drag_enable_disabled [OF assms])
qed

lemma drop_enable_then_destroy:
  assumes "jq_data p el DEFAULT_DROP_NAMESPACE \<noteq> Some True" and "opts \<noteq> Destroy"
  shows "html5Droppable_each Destroy el (html5Droppable_each opts el p) =
    p\<lparr>listeners := (listeners p)(el :=
         filter (\<lambda>l. on_namespace l \<noteq> DEFAULT_DROP_NAMESPACE) (listeners p el)),
      jq_data := (jq_data p)(el := (jq_data p el)(DEFAULT_DROP_NAMESPACE \<mapsto> False))\<rparr>"
proof -
  have "jq_data (html5Droppable_each opts el p) el DEFAULT_DROP_NAMESPACE = Some True"
    by (simp add: drop_enable_disabled [OF assms])
  from drop_destroy_enabled [OF this] show ?thesis
    by (simp add: drop_enable_disabled [OF assms])
qed

lemma drag_enable_twice:
  assumes "jq_data p el DEFAULT_DRAG_NAMESPACE \<noteq> Some True" and "opts \<noteq> Destroy"
    and "opts' \<noteq> Destroy"
  shows "html5Draggable_each opts' el (html5Draggable_each opts el p) =
         html5Draggable_each opts el p"
  by (rule drag_enable_enabled) (simp_all add: drag_enable_disabled [OF assms(1,2)] assms(3))

lemma drop_enable_twice:
  assumes "jq_data p el DEFAULT_DROP_NAMESPACE \<noteq> Some True" and "opts \<noteq> Destroy"
    and "opts' \<noteq> Destroy"
  shows "html5Droppable_each opts' el (html5Droppable_each opts el p) =
         html5Droppable_each opts el p"
  by (rule drop_enable_enabled) (simp_all add: drop_enable_disabled [OF assms(1,2)] assms(3))

text \<open>
  Claim C7, for the draggable plugin and, in the same words, for the droppable plugin.
  A call that is not \<^verbatim>\<open>'destroy'\<close> on a set of elements that are all enabled returns the
  page as it was: no listener is added. A \<^verbatim>\<open>'destroy'\<close> call on a set of elements none of
  which is enabled returns the page as it was. On an element that is not enabled, a
  second enabling call changes nothing after the first, which has added one listener for
  each native event of the controller, so a native event reaches each handler once; and
  \<^verbatim>\<open>'destroy'\<close> after the enabling call removes from the element exactly the listeners of
  the controller's namespace and stores \<^verbatim>\<open>false\<close> as the element's flag. Each plugin reads
  and writes its own flag and removes its own namespace only.
\<close>

theorem plugins_enable_destroy_idempotent:
  "(opts \<noteq> Destroy \<and> list_all (\<lambda>el. jq_data p el DEFAULT_DRAG_NAMESPACE = Some True) els \<longrightarrow>
      html5Draggable opts els p = p)
   \<and> (list_all (\<lambda>el. jq_data p el DEFAULT_DRAG_NAMESPACE \<noteq> Some True) els \<longrightarrow>
      html5Draggable Destroy els p = p)
   \<and> (opts \<noteq> Destroy \<and> opts' \<noteq> Destroy \<and> jq_data p el DEFAULT_DRAG_NAMESPACE \<noteq> Some True \<longrightarrow>
      html5Draggable opts' [el] (html5Draggable opts [el] p) = html5Draggable opts [el] p
      \<and> listeners (html5Draggable opts [el] p) el = listeners p el @
           [\<lparr>on_type = ''dragstart'', on_namespace = DEFAULT_DRAG_NAMESPACE,
             on_selector = (case opts of Options s \<Rightarrow> s | _ \<Rightarrow> Str DRAGGABLE_SELECTOR),
             on_handler = OnDragStart\<rparr>,
            \<lparr>on_type = ''dragend'', on_namespace = DEFAULT_DRAG_NAMESPACE,
             on_selector = (case opts of Options s \<Rightarrow> s | _ \<Rightarrow> Str DRAGGABLE_SELECTOR),
             on_handler = OnDragEnd\<rparr>]
      \<and> html5Draggable Destroy [el] (html5Draggable opts [el] p) =
          p\<lparr>listeners := (listeners p)(el :=
               filter (\<lambda>l. on_namespace l \<noteq> DEFAULT_DRAG_NAMESPACE) (listeners p el)),
            jq_data := (jq_data p)(el := (jq_data p el)(DEFAULT_DRAG_NAMESPACE \<mapsto> False))\<rparr>)
   \<and> (opts \<noteq> Destroy \<and> list_all (\<lambda>el. jq_data p el DEFAULT_DROP_NAMESPACE = Some True) els \<longrightarrow>
      html5Droppable opts els p = p)
   \<and> (list_all (\<lambda>el. jq_data p el DEFAULT_DROP_NAMESPACE \<noteq> Some True) els \<longrightarrow>
      html5Droppable Destroy els p = p)
   \<and> (opts \<noteq> Destroy \<and> opts' \<noteq> Destroy \<and> jq_data p el DEFAULT_DROP_NAMESPACE \<noteq> Some True \<longrightarrow>
      html5Droppable opts' [el] (html5Droppable opts [el] p) = html5Droppable opts [el] p
      \<and> listeners (html5Droppable opts [el] p) el = listeners p el @
           [\<lparr>on_type = ''dragenter'', on_namespace = DEFAULT_DROP_NAMESPACE,
             on_selector = (case opts of Options s \<Rightarrow> s | _ \<Rightarrow> Str DROPPABLE_SELECTOR),
             on_handler = OnDragEnter\<rparr>,
            \<lparr>on_type = ''dragover'', on_namespace = DEFAULT_DROP_NAMESPACE,
             on_selector = (case opts of Options s \<Rightarrow> s | _ \<Rightarrow> Str DROPPABLE_SELECTOR),
             on_handler = OnDragOver\<rparr>,
            \<lparr>on_type = ''dragleave'', on_namespace = DEFAULT_DROP_NAMESPACE,
             on_selector = (case opts of Options s \<Rightarrow> s | _ \<Rightarrow> Str DROPPABLE_SELECTOR),
             on_handler = OnDragLeave\<rparr>,
            \<lparr>on_type = ''drop'', on_namespace = DEFAULT_DROP_NAMESPACE,
             on_selector = (case opts of Options s \<Rightarrow> s | _ \<Rightarrow> Str DROPPABLE_SELECTOR),
             on_handler = OnDragDrop\<rparr>]
      \<and> html5Droppable Destroy [el] (html5Droppable opts [el] p) =
          p\<lparr>listeners := (listeners p)(el :=
               filter (\<lambda>l. on_namespace l \<noteq> DEFAULT_DROP_NAMESPACE) (listeners p el)),
            jq_data := (jq_data p)(el := (jq_data p el)(DEFAULT_DROP_NAMESPACE \<mapsto> False))\<rparr>)"
proof -
  have one: "html5Draggable o1 [el] q = html5Draggable_each o1 el q"
    "html5Droppable o1 [el] q = html5Droppable_each o1 el q" for o1 q
    by (simp_all add: html5Draggable_def html5Droppable_def)
  have 1: "opts \<noteq> Destroy \<and> list_all (\<lambda>el. jq_data p el DEFAULT_DRAG_NAMESPACE = Some True) els \<longrightarrow>
      html5Draggable opts els p = p"
    by (simp add: html5Draggable_all_enabled)
  have 2: "list_all (\<lambda>el. jq_data p el DEFAULT_DRAG_NAMESPACE \<noteq> Some True) els \<longrightarrow>
      html5Draggable Destroy els p = p"
    by (simp add: html5Draggable_none_enabled)
  have 3: "html5Draggable opts' [el] (html5Draggable opts [el] p) = html5Draggable opts [el] p
      \<and> listeners (html5Draggable opts [el] p) el = listeners p el @
           [\<lparr>on_type = ''dragstart'', on_namespace = DEFAULT_DRAG_NAMESPACE,
             on_selector = (case opts of Options s \<Rightarrow> s | _ \<Rightarrow> Str DRAGGABLE_SELECTOR),
             on_handler = OnDragStart\<rparr>,
            \<lparr>on_type = ''dragend'', on_namespace = DEFAULT_DRAG_NAMESPACE,
             on_selector = (case opts of Options s \<Rightarrow> s | _ \<Rightarrow> Str DRAGGABLE_SELECTOR),
             on_handler = OnDragEnd\<rparr>]
      \<and> html5Draggable Destroy [el] (html5Draggable opts [el] p) =
          p\<lparr>listeners := (listeners p)(el :=
               filter (\<lambda>l. on_namespace l \<noteq> DEFAULT_DRAG_NAMESPACE) (listeners p el)),
            jq_data := (jq_data p)(el := (jq_data p el)(DEFAULT_DRAG_NAMESPACE \<mapsto> False))\<rparr>"
    if "opts \<noteq> Destroy \<and> opts' \<noteq> Destroy \<and> jq_data p el DEFAULT_DRAG_NAMESPACE \<noteq> Some True"
  proof -
    from that have a: "jq_data p el DEFAULT_DRAG_NAMESPACE \<noteq> Some True" "opts \<noteq> Destroy"
      "opts' \<noteq> Destroy" by simp_all
    show ?thesis unfolding one
      using drag_enable_twice [OF a] drag_enable_then_destroy [OF a(1,2)]
      by (simp add: drag_enable_disabled [OF a(1,2)])
  qed
  have 4: "opts \<noteq> Destroy \<and> list_all (\<lambda>el. jq_data p el DEFAULT_DROP_NAMESPACE = Some True) els \<longrightarrow>
      html5Droppable opts els p = p"
    by (simp add: html5Droppable_all_enabled)
  have 5: "list_all (\<lambda>el. jq_data p el DEFAULT_DROP_NAMESPACE \<noteq> Some True) els \<longrightarrow>
      html5Droppable Destroy els p = p"
    by (simp add: html5Droppable_none_enabled)
  have 6: "html5Droppable opts' [el] (html5Droppable opts [el] p) = html5Droppable opts [el] p
      \<and> listeners (html5Droppable opts [el] p) el = listeners p el @
           [\<lparr>on_type = ''dragenter'', on_namespace = DEFAULT_DROP_NAMESPACE,
             on_selector = (case opts of Options s \<Rightarrow> s | _ \<Rightarrow> Str DROPPABLE_SELECTOR),
             on_handler = OnDragEnter\<rparr>,
            \<lparr>on_type = ''dragover'', on_namespace = DEFAULT_DROP_NAMESPACE,
             on_selector = (case opts of Options s \<Rightarrow> s | _ \<Rightarrow> Str DROPPABLE_SELECTOR),
             on_handler = OnDragOver\<rparr>,
            \<lparr>on_type = ''dragleave'', on_namespace = DEFAULT_DROP_NAMESPACE,
             on_selector = (case opts of Options s \<Rightarrow> s | _ \<Rightarrow> Str DROPPABLE_SELECTOR),
             on_handler = OnDragLeave\<rparr>,
            \<lparr>on_type = ''drop'', on_namespace = DEFAULT_DROP_NAMESPACE,
             on_selector = (case opts of Options s \<Rightarrow> s | _ \<Rightarrow> Str DROPPABLE_SELECTOR),
             on_handler = OnDragDrop\<rparr>]
      \<and> html5Droppable Destroy [el] (html5Droppable opts [el] p) =
          p\<lparr>listeners := (listeners p)(el :=
               filter (\<lambda>l. on_namespace l \<noteq> DEFAULT_DROP_NAMESPACE) (listeners p el)),
            jq_data := (jq_data p)(el := (jq_data p el)(DEFAULT_DROP_NAMESPACE \<mapsto> False))\<rparr>"
    if "opts \<noteq> Destroy \<and> opts' \<noteq> Destroy \<and> jq_data p el DEFAULT_DROP_NAMESPACE \<noteq> Some True"
  proof -
    from that have a: "jq_data p el DEFAULT_DROP_NAMESPACE \<noteq> Some True" "opts \<noteq> Destroy"
      "opts' \<noteq> Destroy" by simp_all
    show ?thesis unfolding one
      using drop_enable_twice [OF a] drop_enable_then_destroy [OF a(1,2)]
      by (simp add: drop_enable_disabled [OF a(1,2)])
  qed
  from 1 2 3 4 5 6 show ?thesis by blast
qed

text \<open>The page once the deferred block has run on a page with nothing attached.\<close>

lemma deferred_init_empty_page:
  "deferred_init empty_page =
    \<lparr>listeners = (\<lambda>el. [])(document :=
       [\<lparr>on_type = ''dnd-data-set'', on_namespace = [], on_selector = Undefined,
          on_handler = OnDataSet\<rparr>,
        \<lparr>on_type = ''dragstart'', on_namespace = ''html5-draggable'',
          on_selector = Str ''[data-draggable]'', on_handler = OnDragStart\<rparr>,
        \<lparr>on_type = ''dragend'', on_namespace = ''html5-draggable'',
          on_selector = Str ''[data-draggable]'', on_handler = OnDragEnd\<rparr>,
        \<lparr>on_type = ''dragenter'', on_namespace = ''html5-droppable'',
          on_selector = Str ''[data-droppable]'', on_handler = OnDragEnter\<rparr>,
        \<lparr>on_type = ''dragover'', on_namespace = ''html5-droppable'',
          on_selector = Str ''[data-droppable]'', on_handler = OnDragOver\<rparr>,
        \<lparr>on_type = ''dragleave'', on_namespace = ''html5-droppable'',
          on_selector = Str ''[data-droppable]'', on_handler = OnDragLeave\<rparr>,
        \<lparr>on_type = ''drop'', on_namespace = ''html5-droppable'',
          on_selector = Str ''[data-droppable]'', on_handler = OnDragDrop\<rparr>,
        \<lparr>on_type = ''dragenter'', on_namespace = ''html5-droppable'',
          on_selector = Str ''[data-droppable-edge]'', on_handler = OnDroppableEdgeEnter\<rparr>,
        \<lparr>on_type = ''dragleave'', on_namespace = ''html5-droppable'',
          on_selector = Str ''[data-droppable-edge]'', on_handler = OnDroppableEdgeLeave\<rparr>]),
     jq_data = (\<lambda>el key. None)(document :=
       [''html5-draggable'' \<mapsto> True, ''html5-droppable'' \<mapsto> True])\<rparr>"
  by (simp add: deferred_init_def empty_page_def Let_def html5Draggable_def html5Droppable_def
      html5Draggable_each_def html5Droppable_each_def initializeDraggable_def
      initializeDroppable_def jq_on_def jq_data_set_def DEFAULT_DRAG_NAMESPACE_def
      DEFAULT_DROP_NAMESPACE_def DRAGGABLE_SELECTOR_def DROPPABLE_SELECTOR_def
      DROPPABLE_EDGE_SELECTOR_def fun_upd_twist)

text \<open>On the page the deferred block leaves, enabling the document again changes nothing
  and \<^verbatim>\<open>dragstart\<close> has one listener; on a page with nothing attached, \<^verbatim>\<open>'destroy'\<close>
  changes nothing, and enabling, enabling again and destroying element 2 leaves it without
  listeners and with the flag \<^verbatim>\<open>false\<close>.\<close>

theorem plugins_enable_destroy_idempotent_witness:
  "NoOptions \<noteq> Destroy
   \<and> list_all (\<lambda>el. jq_data (deferred_init empty_page) el DEFAULT_DRAG_NAMESPACE = Some True)
        [document]
   \<and> html5Draggable NoOptions [document] (deferred_init empty_page) = deferred_init empty_page
   \<and> length (filter (\<lambda>l. on_type l = ''dragstart'')
         (listeners (html5Draggable NoOptions [document] (deferred_init empty_page)) document)) = 1
   \<and> list_all (\<lambda>el. jq_data empty_page el DEFAULT_DROP_NAMESPACE \<noteq> Some True) [2, 3]
   \<and> html5Droppable Destroy [2, 3] empty_page = empty_page
   \<and> jq_data empty_page 2 DEFAULT_DRAG_NAMESPACE \<noteq> Some True
   \<and> html5Draggable NoOptions [2] (html5Draggable (Options (Str ''.item'')) [2] empty_page) =
        html5Draggable (Options (Str ''.item'')) [2] empty_page
   \<and> length (listeners (html5Draggable (Options (Str ''.item'')) [2] empty_page) 2) = 2
   \<and> listeners (html5Draggable Destroy [2]
         (html5Draggable (Options (Str ''.item'')) [2] empty_page)) 2 = []
   \<and> jq_data (html5Draggable Destroy [2]
         (html5Draggable (Options (Str ''.item'')) [2] empty_page)) 2 DEFAULT_DRAG_NAMESPACE
        = Some False"
proof -
  let ?p = "deferred_init empty_page"
  let ?o = "Options (Str ''.item'')"
  have a: "NoOptions \<noteq> Destroy \<and>
      list_all (\<lambda>el. jq_data ?p el DEFAULT_DRAG_NAMESPACE = Some True) [document]"
    by (simp add: deferred_init_empty_page DEFAULT_DRAG_NAMESPACE_def)
  have b: "list_all (\<lambda>el. jq_data empty_page el DEFAULT_DROP_NAMESPACE \<noteq> Some True) [2, 3]"
    by (simp add: empty_page_def)
  have c: "?o \<noteq> Destroy \<and> NoOptions \<noteq> Destroy \<and>
      jq_data empty_page 2 DEFAULT_DRAG_NAMESPACE \<noteq> Some True"
    by (simp add: empty_page_def)
  note t1 = plugins_enable_destroy_idempotent [of NoOptions ?p "[document]",
      THEN conjunct1, rule_format, OF a]
  note t2 = plugins_enable_destroy_idempotent [of _ empty_page "[2, 3]",
      THEN conjunct2, THEN conjunct2, THEN conjunct2, THEN conjunct2, THEN conjunct1,
      rule_format, OF b]
  note t3 = plugins_enable_destroy_idempotent [of ?o empty_page _ NoOptions 2,
      THEN conjunct2, THEN conjunct2, THEN conjunct1, rule_format, OF c]
  have 1: "length (filter (\<lambda>l. on_type l = ''dragstart'')
         (listeners (html5Draggable NoOptions [document] ?p) document)) = 1"
    unfolding t1 by (simp add: deferred_init_empty_page)
  have 2: "length (listeners (html5Draggable ?o [2] empty_page) 2) = 2"
    using t3 [THEN conjunct2, THEN conjunct1] by (simp add: empty_page_def)
  have 3: "listeners (html5Draggable Destroy [2] (html5Draggable ?o [2] empty_page)) 2 = []"
    and 4: "jq_data (html5Draggable Destroy [2] (html5Draggable ?o [2] empty_page)) 2
              DEFAULT_DRAG_NAMESPACE = Some False"
    unfolding t3 [THEN conjunct2, THEN conjunct2] by (simp_all add: empty_page_def)
  from a t1 1 b t2 c t3 [THEN conjunct1] 2 3 4 show ?thesis by blast
qed

end
